theory Spec2Isabelle
  imports Complex_Main
begin

section \<open>Pull-request server actions of better-hub (pr-actions.ts)\<close>

text \<open>
  The module forwards pull-request actions to the hosting API, revalidates cached views
  and assembles the contributor dossier. JavaScript strings are modelled as \<open>string\<close>,
  counts returned by the API as \<open>nat\<close>, line numbers (a JavaScript \<open>number\<close>, possibly
  negative) as \<open>int\<close>, \<open>null\<close>/\<open>undefined\<close> as \<open>None\<close>.
\<close>

subsection \<open>String primitives of the platform\<close>

text \<open>
  \<open>String.prototype.toLowerCase\<close> on the ASCII range: the letters \<open>A\<close>..\<open>Z\<close> (codes 65..90)
  move to \<open>a\<close>..\<open>z\<close>, every other character is unchanged. Logins of the hosting service
  are ASCII (letters, digits, hyphen).
\<close>

definition is_upper :: "char \<Rightarrow> bool" where
  "is_upper c = (65 \<le> (of_char c :: nat) \<and> (of_char c :: nat) \<le> 90)"

definition lower_char :: "char \<Rightarrow> char" where
  "lower_char c = (if is_upper c then char_of ((of_char c :: nat) + 32) else c)"

definition toLowerCase :: "string \<Rightarrow> string" where
  "toLowerCase s = map lower_char s"

text \<open>\<open>s.split("\n")\<close>: the empty string gives one empty line, a trailing newline a last empty line.\<close>

fun split_nl :: "string \<Rightarrow> string list" where
  "split_nl [] = [[]]"
| "split_nl (c # cs) =
     (if c = CHR 0x0A then [] # split_nl cs
      else (case split_nl cs of [] \<Rightarrow> [[c]] | l # ls \<Rightarrow> (c # l) # ls))"

text \<open>\<open>lines.join("\n")\<close>: the empty array gives the empty string.\<close>

fun join_nl :: "string list \<Rightarrow> string" where
  "join_nl [] = []"
| "join_nl [l] = l"
| "join_nl (l # ls) = l @ CHR 0x0A # join_nl ls"

text \<open>
  \<open>Array.prototype.slice(start, end)\<close> on integer arguments: a negative index counts from
  the end, and both indices are clamped to \<open>0..length\<close>.
\<close>

definition slice_index :: "nat \<Rightarrow> int \<Rightarrow> nat" where
  "slice_index len i = (if i < 0 then nat (max (int len + i) 0) else min (nat i) len)"

definition js_slice :: "'a list \<Rightarrow> int \<Rightarrow> int \<Rightarrow> 'a list" where
  "js_slice xs start end =
     (let k = slice_index (length xs) start; f = slice_index (length xs) end
      in take (f - k) (drop k xs))"

definition js_slice_from :: "'a list \<Rightarrow> int \<Rightarrow> 'a list" where
  "js_slice_from xs start = js_slice xs start (int (length xs))"

subsection \<open>commitSuggestion: the line splice (lines 284-290)\<close>

definition suggestionLines :: "string \<Rightarrow> string list" where
  "suggestionLines suggestion = (if length suggestion > 0 then split_nl suggestion else [])"

definition splicedLines :: "string \<Rightarrow> int \<Rightarrow> int \<Rightarrow> string \<Rightarrow> string list" where
  "splicedLines content startLine endLine suggestion =
     (let lines = split_nl content;
          before = js_slice lines 0 (startLine - 1);
          after = js_slice_from lines endLine
      in before @ suggestionLines suggestion @ after)"

definition newContent :: "string \<Rightarrow> int \<Rightarrow> int \<Rightarrow> string \<Rightarrow> string" where
  "newContent content startLine endLine suggestion =
     join_nl (splicedLines content startLine endLine suggestion)"

subsection \<open>The contributor dossier (fetchAuthorDossierGraphQL, lines 515-641)\<close>

text \<open>The shape of the GraphQL response the function reads; a field that may be \<open>null\<close> or missing is optional.\<close>

record connection =
  totalCount :: "nat option"

record search_result =
  issueCount :: "nat option"

record language_node =
  language_name :: "string option"

record repo_node =
  repo_name :: "string option"
  nameWithOwner :: "string option"
  stargazerCount :: "nat option"
  primaryLanguage :: "language_node option"

record org_node =
  org_login :: "string option"
  avatarUrl :: "string option"

record 'a node_list =
  nodes :: "'a list option"

record gql_user =
  user_login :: "string option"
  user_name :: "string option"
  user_avatarUrl :: "string option"
  bio :: "string option"
  company :: "string option"
  location :: "string option"
  websiteUrl :: "string option"
  twitterUsername :: "string option"
  repositories :: "connection option"
  followers_conn :: "connection option"
  following_conn :: "connection option"
  createdAt :: "string option"
  typename :: "string option"
  topRepositories :: "repo_node node_list option"
  organizations :: "org_node node_list option"

record gql_data =
  user :: "gql_user option"
  openPrs :: "search_result option"
  mergedPrs :: "search_result option"
  closedPrs :: "search_result option"
  issues :: "search_result option"
  reviews :: "search_result option"

record gql_error =
  message :: string

record gql_json =
  errors :: "gql_error list option"
  data :: "gql_data option"

text \<open>The argument object of \<open>computeContributorScore\<close> as the call site builds it (lines 599-611).\<close>

record pr_entry =
  state :: string

record ContributorSnapshot =
  followers :: nat
  publicRepos :: nat
  accountCreated :: string
  commitsInRepo :: nat
  prsInRepo :: "pr_entry list"
  reviewsInRepo :: nat
  isContributor :: bool
  contributionCount :: nat
  isOrgMember :: bool
  isOwner :: bool
  topRepoStars :: "nat list"

text \<open>The values the function returns (lines 613-640).\<close>

record org_entry =
  login :: "string option"
  avatar_url :: "string option"

record top_repo =
  name :: "string option"
  full_name :: "string option"
  stargazers_count :: nat
  language :: "string option"

record author_info =
  author_login :: "string option"
  author_name :: "string option"
  author_avatar_url :: "string option"
  author_bio :: "string option"
  author_company :: "string option"
  author_location :: "string option"
  blog :: "string option"
  twitter_username :: "string option"
  public_repos :: nat
  author_followers :: nat
  following :: nat
  created_at :: "string option"
  author_type :: string

record repo_activity =
  commits :: nat
  prs :: nat
  activity_reviews :: nat
  activity_issues :: nat

record 's dossier =
  author :: author_info
  orgs :: "org_entry list"
  topRepos :: "top_repo list"
  dossier_isOrgMember :: bool
  score :: 's
  dossier_contributionCount :: nat
  repoActivity :: repo_activity

text \<open>\<open>x?.totalCount ?? 0\<close> and \<open>x?.issueCount ?? 0\<close>.\<close>

definition totalCount_or_0 :: "connection option \<Rightarrow> nat" where
  "totalCount_or_0 c = (case c of None \<Rightarrow> 0 | Some k \<Rightarrow> (case totalCount k of None \<Rightarrow> 0 | Some n \<Rightarrow> n))"

definition issueCount_or_0 :: "search_result option \<Rightarrow> nat" where
  "issueCount_or_0 r = (case r of None \<Rightarrow> 0 | Some k \<Rightarrow> (case issueCount k of None \<Rightarrow> 0 | Some n \<Rightarrow> n))"

text \<open>\<open>json.data?.s?.issueCount ?? 0\<close> for the search \<open>s\<close> of the response data.\<close>

definition search_count :: "gql_data option \<Rightarrow> (gql_data \<Rightarrow> search_result option) \<Rightarrow> nat" where
  "search_count d s = issueCount_or_0 (case d of None \<Rightarrow> None | Some x \<Rightarrow> s x)"

text \<open>\<open>l?.nodes ?? []\<close>.\<close>

definition nodes_or_empty :: "'a node_list option \<Rightarrow> 'a list" where
  "nodes_or_empty l = (case l of None \<Rightarrow> [] | Some k \<Rightarrow> (case nodes k of None \<Rightarrow> [] | Some ns \<Rightarrow> ns))"

definition dossier_orgs :: "gql_user \<Rightarrow> org_entry list" where
  "dossier_orgs u =
     map (\<lambda>g. \<lparr>login = org_login g, avatar_url = avatarUrl g\<rparr>) (nodes_or_empty (organizations u))"

definition dossier_topRepos :: "gql_user \<Rightarrow> top_repo list" where
  "dossier_topRepos u =
     map (\<lambda>r. \<lparr>name = repo_name r, full_name = nameWithOwner r,
               stargazers_count = (case stargazerCount r of None \<Rightarrow> 0 | Some n \<Rightarrow> n),
               language = (case primaryLanguage r of None \<Rightarrow> None | Some l \<Rightarrow> language_name l)\<rparr>)
         (nodes_or_empty (topRepositories u))"

text \<open>
  \<open>orgs.some((o) => o.login?.toLowerCase() === owner.toLowerCase())\<close>: an organisation
  without a login compares \<open>undefined\<close> with a string, which is false.
\<close>

definition dossier_isOrgMember_of :: "org_entry list \<Rightarrow> string \<Rightarrow> bool" where
  "dossier_isOrgMember_of os owner =
     list_ex (\<lambda>g. case login g of None \<Rightarrow> False | Some l \<Rightarrow> toLowerCase l = toLowerCase owner) os"

text \<open>\<open>[...Array(m).fill({state: "merged"}), ...Array(c).fill({state: "closed"}), ...Array(o).fill({state: "open"})]\<close>.\<close>

definition build_prsInRepo :: "nat \<Rightarrow> nat \<Rightarrow> nat \<Rightarrow> pr_entry list" where
  "build_prsInRepo mergedN closedN openN =
     replicate mergedN \<lparr>state = ''merged''\<rparr> @ replicate closedN \<lparr>state = ''closed''\<rparr>
       @ replicate openN \<lparr>state = ''open''\<rparr>"

text \<open>The snapshot passed to the scorer, from the user node, the response data, the owner and the author login.\<close>

definition dossier_snapshot :: "gql_user \<Rightarrow> gql_data option \<Rightarrow> string \<Rightarrow> string \<Rightarrow> ContributorSnapshot" where
  "dossier_snapshot u d owner authorLogin =
     (let os = dossier_orgs u;
          topRs = dossier_topRepos u;
          isOrgMember' = dossier_isOrgMember_of os owner;
          mergedPrs' = search_count d mergedPrs;
          closedPrs' = search_count d closedPrs;
          openPrs' = search_count d openPrs;
          reviewCount = search_count d reviews;
          contributionCount' = mergedPrs' + reviewCount;
          isContributor' = (contributionCount' > 0)
      in \<lparr>followers = totalCount_or_0 (followers_conn u),
          publicRepos = totalCount_or_0 (repositories u),
          accountCreated = (case createdAt u of None \<Rightarrow> [] | Some t \<Rightarrow> t),
          commitsInRepo = mergedPrs',
          prsInRepo = build_prsInRepo mergedPrs' closedPrs' openPrs',
          reviewsInRepo = reviewCount,
          isContributor = isContributor',
          contributionCount = contributionCount',
          isOrgMember = isOrgMember',
          isOwner = (toLowerCase authorLogin = toLowerCase owner),
          topRepoStars = map stargazers_count topRs\<rparr>)"

text \<open>
  Modelled from the spec: the scorer \<open>computeContributorScore\<close> lives in
  \<open>@/lib/contributor-score\<close>, which is not among the sources; it is a parameter of the
  dossier, with the signature the specification gives it: the snapshot and a reference
  instant \<open>now\<close> (milliseconds) that a caller may supply. An argument that a call leaves out
  is \<open>None\<close>.
\<close>

type_synonym 's scorer = "ContributorSnapshot \<Rightarrow> int option \<Rightarrow> 's"

text \<open>
  The argument list of the call at lines 599-611: the snapshot object is its only argument.
\<close>

definition score_call_arguments ::
  "gql_user \<Rightarrow> gql_data option \<Rightarrow> string \<Rightarrow> string \<Rightarrow> ContributorSnapshot \<times> int option" where
  "score_call_arguments u d owner authorLogin = (dossier_snapshot u d owner authorLogin, None)"

text \<open>
  The body of \<open>fetchAuthorDossierGraphQL\<close> after the response has been parsed: \<open>None\<close> is the
  \<open>null\<close> returned when the response carries no user (\<open>json.data?.user\<close>).
\<close>

definition json_user :: "gql_json \<Rightarrow> gql_user option" where
  "json_user json = (case data json of None \<Rightarrow> None | Some d \<Rightarrow> user d)"

definition dossier_of_json ::
  "'s scorer \<Rightarrow> gql_json \<Rightarrow> string \<Rightarrow> string \<Rightarrow> 's dossier option" where
  "dossier_of_json computeContributorScore json owner authorLogin =
     (case json_user json of
        None \<Rightarrow> None
      | Some u \<Rightarrow>
         (let d = data json;
              snap = dossier_snapshot u d owner authorLogin;
              openPrs' = search_count d openPrs;
              mergedPrs' = search_count d mergedPrs;
              closedPrs' = search_count d closedPrs;
              totalPrs = openPrs' + mergedPrs' + closedPrs';
              issueCount' = search_count d issues;
              reviewCount = search_count d reviews
          in Some \<lparr>author = \<lparr>author_login = user_login u, author_name = user_name u,
                              author_avatar_url = user_avatarUrl u, author_bio = bio u,
                              author_company = company u, author_location = location u,
                              blog = websiteUrl u, twitter_username = twitterUsername u,
                              public_repos = totalCount_or_0 (repositories u),
                              author_followers = totalCount_or_0 (followers_conn u),
                              following = totalCount_or_0 (following_conn u),
                              created_at = createdAt u,
                              author_type = (if typename u = Some ''Bot'' then ''Bot'' else ''User'')\<rparr>,
                    orgs = dossier_orgs u,
                    topRepos = js_slice (dossier_topRepos u) 0 3,
                    dossier_isOrgMember = isOrgMember snap,
                    score = (case score_call_arguments u d owner authorLogin of
                               (arg, now) \<Rightarrow> computeContributorScore arg now),
                    dossier_contributionCount = contributionCount snap,
                    repoActivity = \<lparr>commits = mergedPrs', prs = totalPrs,
                                    activity_reviews = reviewCount, activity_issues = issueCount'\<rparr>\<rparr>))"

subsection \<open>Calls to collaborators, and the values they return\<close>

text \<open>Template literals print a number in decimal (\<open>`${pullNumber}`\<close>).\<close>

definition digit_char :: "nat \<Rightarrow> char" where
  "digit_char d = char_of (48 + d)"

function show_nat :: "nat \<Rightarrow> string" where
  "show_nat n = (if n < 10 then [digit_char n] else show_nat (n div 10) @ [digit_char (n mod 10)])"
  by pat_completeness auto
termination
  by (relation "measure (\<lambda>n. n)") auto

declare show_nat.simps [simp del]

definition show_int :: "int \<Rightarrow> string" where
  "show_int i = (if i < 0 then CHR ''-'' # show_nat (nat (- i)) else show_nat (nat i))"

datatype MergeMethod = Merge | Squash | Rebase

datatype ReviewEvent = APPROVE | REQUEST_CHANGES | COMMENT

datatype Side = LEFT | RIGHT

datatype PRMutationScope = ScopeDetail | ScopeList | ScopeLayout

text \<open>The one field that a \<open>pulls.update\<close> request of this module sets.\<close>

datatype pulls_update_field = Base string | Title string | State string

datatype graphql_request =
    ResolveReviewThreadMutation string
  | UnresolveReviewThreadMutation string
  | DossierQuery string string

record tree_entry =
  entry_path :: string
  entry_mode :: string
  entry_type :: string
  entry_sha :: string

record commit_author =
  commit_author_name :: string
  commit_author_email :: string
  commit_author_date :: string

text \<open>
  Modelled from the spec: \<open>getErrorMessage\<close> of \<open>@/lib/utils\<close> is not among the sources. A
  thrown value is identified with the message that function extracts from it, the empty
  string when it has none.
\<close>

datatype thrown = Thrown string

fun getErrorMessage :: "thrown \<Rightarrow> string" where
  "getErrorMessage (Thrown m) = m"

text \<open>
  Every call the module makes to a collaborator: the REST client, \<open>fetch\<close> on the GraphQL
  endpoint, the helpers of \<open>@/lib/github\<close>, the cache invalidation, \<open>revalidatePath\<close> and the
  console. File contents travel as text: the base64 transport encoding is left out.
\<close>

datatype call =
    PullsUpdate string string int pulls_update_field
  | PullsMerge string string int MergeMethod "string option" "string option"
  | PullsCreateReview string string int ReviewEvent "string option"
  | IssuesCreateComment string string int string
  | PullsCreateReviewComment string string int string string string int Side "(int \<times> Side) option"
  | ReposGetContent string string string string
  | ReposCreateOrUpdateFileContents string string string string string string string
  | Fetch string graphql_request
  | GitGetRef string string string
  | GitGetCommit string string string
  | GitCreateBlob string string string
  | GitCreateTree string string string "tree_entry list"
  | GitCreateCommit string string string string "string list" "commit_author option"
  | GitUpdateRef string string string string
  | GetAuthenticatedUser
  | GetRepoBranches string string
  | InvalidatePullRequestCache string string int
  | RevalidatePath string "string option"
  | ConsoleError string thrown

record file_data =
  file_type :: string
  file_content :: string
  file_sha :: string

datatype content_data = Listing | Entry file_data

record http_response =
  ok :: bool
  json_body :: "thrown + gql_json"

record branch =
  branch_name :: string

record auth_user =
  auth_user_name :: "string option"
  auth_user_login :: "string option"
  auth_user_email :: "string option"

text \<open>
  What a collaborator hands back: \<open>VContent\<close> is the \<open>data\<close> of \<open>repos.getContent\<close>,
  \<open>VWritten\<close> the \<open>data.content?.sha\<close> of a file write, \<open>VSha\<close> the sha of a ref, blob, tree
  or new commit, \<open>VCommit\<close> the tree sha of a commit, \<open>VResponse\<close> the response of \<open>fetch\<close>
  with the outcome of reading its JSON body.
\<close>

datatype val =
    VUnit
  | VContent content_data
  | VWritten "string option"
  | VSha string
  | VCommit string
  | VResponse http_response
  | VBranches "branch list option"
  | VUser "auth_user option"

datatype outcome = Threw thrown | Returned val

text \<open>
  The behaviour of the collaborators: the outcome of a call, given the calls made before
  it. The state of a computation is the list of calls made so far.
\<close>

type_synonym env = "call list \<Rightarrow> call \<Rightarrow> outcome"

type_synonym 'a io = "call list \<Rightarrow> (thrown + 'a) \<times> call list"

definition io_return :: "'a \<Rightarrow> 'a io" where
  "io_return a = (\<lambda>tr. (Inr a, tr))"

definition io_throw :: "thrown \<Rightarrow> 'a io" where
  "io_throw e = (\<lambda>tr. (Inl e, tr))"

definition io_lift :: "thrown + 'a \<Rightarrow> 'a io" where
  "io_lift r = (\<lambda>tr. (r, tr))"

definition io_bind :: "'a io \<Rightarrow> ('a \<Rightarrow> 'b io) \<Rightarrow> 'b io" where
  "io_bind m f = (\<lambda>tr. case m tr of (Inl e, tr') \<Rightarrow> (Inl e, tr') | (Inr a, tr') \<Rightarrow> f a tr')"

definition io_seq :: "'a io \<Rightarrow> 'b io \<Rightarrow> 'b io" where
  "io_seq m n = io_bind m (\<lambda>_. n)"

text \<open>\<open>try { m } catch (e) { h e }\<close>.\<close>

definition io_try :: "'a io \<Rightarrow> (thrown \<Rightarrow> 'a io) \<Rightarrow> 'a io" where
  "io_try m h = (\<lambda>tr. case m tr of (Inl e, tr') \<Rightarrow> h e tr' | (Inr a, tr') \<Rightarrow> (Inr a, tr'))"

text \<open>An awaited call: it is recorded, and it throws or returns as the collaborator decides.\<close>

definition perform :: "env \<Rightarrow> call \<Rightarrow> val io" where
  "perform env c = (\<lambda>tr. (case env tr c of Threw e \<Rightarrow> Inl e | Returned v \<Rightarrow> Inr v, tr @ [c]))"

text \<open>\<open>console.error\<close>: recorded, never throws.\<close>

definition io_log :: "call \<Rightarrow> unit io" where
  "io_log c = (\<lambda>tr. (Inr (), tr @ [c]))"

text \<open>
  \<open>await Promise.all(calls)\<close>: every call is started, in order; the result is the list of
  values, or the rejection of the first call in the list that failed.
\<close>

fun start_all :: "env \<Rightarrow> call list \<Rightarrow> call list \<Rightarrow> outcome list \<times> call list" where
  "start_all env [] tr = ([], tr)"
| "start_all env (c # cs) tr =
     (case start_all env cs (tr @ [c]) of (outs, tr') \<Rightarrow> (env tr c # outs, tr'))"

fun settle_all :: "outcome list \<Rightarrow> thrown + val list" where
  "settle_all [] = Inr []"
| "settle_all (Threw e # outs) = Inl e"
| "settle_all (Returned v # outs) = (case settle_all outs of Inl e \<Rightarrow> Inl e | Inr vs \<Rightarrow> Inr (v # vs))"

definition perform_all :: "env \<Rightarrow> call list \<Rightarrow> val list io" where
  "perform_all env cs = (\<lambda>tr. case start_all env cs tr of (outs, tr') \<Rightarrow> (settle_all outs, tr'))"

text \<open>Reading a property of a value of another shape raises a \<open>TypeError\<close>.\<close>

definition type_error :: thrown where
  "type_error = Thrown ''TypeError''"

fun expect_sha :: "val \<Rightarrow> thrown + string" where
  "expect_sha (VSha s) = Inr s"
| "expect_sha _ = Inl type_error"

fun expect_commit :: "val \<Rightarrow> thrown + string" where
  "expect_commit (VCommit s) = Inr s"
| "expect_commit _ = Inl type_error"

fun expect_content :: "val \<Rightarrow> thrown + content_data" where
  "expect_content (VContent d) = Inr d"
| "expect_content _ = Inl type_error"

fun expect_written :: "val \<Rightarrow> thrown + string option" where
  "expect_written (VWritten s) = Inr s"
| "expect_written _ = Inl type_error"

fun expect_response :: "val \<Rightarrow> thrown + http_response" where
  "expect_response (VResponse r) = Inr r"
| "expect_response _ = Inl type_error"


fun expect_user :: "val \<Rightarrow> thrown + auth_user option" where
  "expect_user (VUser u) = Inr u"
| "expect_user _ = Inl type_error"

fun expect_shas :: "val list \<Rightarrow> thrown + string list" where
  "expect_shas [] = Inr []"
| "expect_shas (v # vs) =
     (case expect_sha v of Inl e \<Rightarrow> Inl e
      | Inr s \<Rightarrow> (case expect_shas vs of Inl e \<Rightarrow> Inl e | Inr ss \<Rightarrow> Inr (s # ss)))"

text \<open>\<open>a || b\<close> on strings, and the truthiness of an optional string.\<close>

definition or_else :: "string \<Rightarrow> string \<Rightarrow> string" where
  "or_else a b = (if a = [] then b else a)"

definition truthy :: "string option \<Rightarrow> string option" where
  "truthy s = (case s of None \<Rightarrow> None | Some t \<Rightarrow> (if t = [] then None else Some t))"

definition opt_or_else :: "string option \<Rightarrow> string \<Rightarrow> string" where
  "opt_or_else a b = (case truthy a of None \<Rightarrow> b | Some t \<Rightarrow> t)"

subsection \<open>Revalidation after a mutation (lines 14-49)\<close>

definition PR_ACTION_SCOPES :: "(string \<times> PRMutationScope list) list" where
  "PR_ACTION_SCOPES =
     [(''merge'', [ScopeDetail, ScopeList, ScopeLayout]),
      (''close'', [ScopeDetail, ScopeList, ScopeLayout]),
      (''reopen'', [ScopeDetail, ScopeList, ScopeLayout]),
      (''rename'', [ScopeDetail, ScopeList]),
      (''updateBase'', [ScopeDetail, ScopeList]),
      (''review'', [ScopeDetail]),
      (''comment'', [ScopeDetail]),
      (''reviewComment'', [ScopeDetail]),
      (''suggestion'', [ScopeDetail]),
      (''fileCommit'', [ScopeDetail]),
      (''resolveThread'', [ScopeDetail]),
      (''unresolveThread'', [ScopeDetail]),
      (''conflictResolution'', [ScopeDetail, ScopeList])]"

text \<open>The three paths: \<open>/repos/${owner}/${repo}/pulls/${pullNumber}\<close>, \<open>/repos/${owner}/${repo}/pulls\<close>, \<open>/repos/${owner}/${repo}\<close>.\<close>

definition detail_path :: "string \<Rightarrow> string \<Rightarrow> int \<Rightarrow> string" where
  "detail_path owner repo pullNumber = ''/repos/'' @ owner @ ''/'' @ repo @ ''/pulls/'' @ show_int pullNumber"

definition list_path :: "string \<Rightarrow> string \<Rightarrow> string" where
  "list_path owner repo = ''/repos/'' @ owner @ ''/'' @ repo @ ''/pulls''"

definition repo_path :: "string \<Rightarrow> string \<Rightarrow> string" where
  "repo_path owner repo = ''/repos/'' @ owner @ ''/'' @ repo"

definition io_when :: "bool \<Rightarrow> val io \<Rightarrow> unit io" where
  "io_when b m = (if b then io_bind m (\<lambda>_. io_return ()) else io_return ())"

text \<open>
  \<open>PR_ACTION_SCOPES[action] ?? ["detail"]\<close>: the table is read as the \<open>Record\<close> from strings to
  scope lists that its type declares, so a key that it does not list gives \<open>undefined\<close> and
  the default applies.
\<close>

definition revalidateAfterPRMutation :: "env \<Rightarrow> string \<Rightarrow> string \<Rightarrow> int \<Rightarrow> string \<Rightarrow> unit io" where
  "revalidateAfterPRMutation env owner repo pullNumber action =
     (let scopes = (case map_of PR_ACTION_SCOPES action of None \<Rightarrow> [ScopeDetail] | Some ss \<Rightarrow> ss)
      in io_seq (perform env (InvalidatePullRequestCache owner repo pullNumber))
        (io_seq (io_when (ScopeDetail \<in> set scopes)
                   (perform env (RevalidatePath (detail_path owner repo pullNumber) None)))
        (io_seq (io_when (ScopeList \<in> set scopes)
                   (perform env (RevalidatePath (list_path owner repo) None)))
                (io_when (ScopeLayout \<in> set scopes)
                   (perform env (RevalidatePath (repo_path owner repo) (Some ''layout'')))))))"

subsection \<open>The exported operations\<close>

text \<open>
  The client object that \<open>getOctokit()\<close> resolves to, and the results of the operations:
  \<open>{success: true}\<close>, \<open>{success: true, newSha}\<close>, \<open>{success: true, mergeCommitSha}\<close> and
  \<open>{error}\<close>. Each operation takes the value that its authentication lookup resolved to
  (\<open>None\<close> for \<open>null\<close>), which the source awaits first.
\<close>

datatype octokit = Octokit

datatype action_result =
    Success
  | SuccessNewSha "string option"
  | SuccessMergeCommit string
  | Failure string


definition updatePRBaseBranch ::
  "env \<Rightarrow> octokit option \<Rightarrow> string \<Rightarrow> string \<Rightarrow> int \<Rightarrow> string \<Rightarrow> action_result io" where
  "updatePRBaseBranch env octo owner repo pullNumber base' =
     (case octo of
        None \<Rightarrow> io_return (Failure ''Not authenticated'')
      | Some _ \<Rightarrow>
          io_try
            (io_seq (perform env (PullsUpdate owner repo pullNumber (Base base')))
            (io_seq (revalidateAfterPRMutation env owner repo pullNumber ''updateBase'')
                    (io_return Success)))
            (\<lambda>e. io_return (Failure (or_else (getErrorMessage e) ''Failed to update base branch''))))"

definition renamePullRequest ::
  "env \<Rightarrow> octokit option \<Rightarrow> string \<Rightarrow> string \<Rightarrow> int \<Rightarrow> string \<Rightarrow> action_result io" where
  "renamePullRequest env octo owner repo pullNumber title' =
     (case octo of
        None \<Rightarrow> io_return (Failure ''Not authenticated'')
      | Some _ \<Rightarrow>
          io_try
            (io_seq (perform env (PullsUpdate owner repo pullNumber (Title title')))
            (io_seq (revalidateAfterPRMutation env owner repo pullNumber ''rename'')
                    (io_return Success)))
            (\<lambda>e. io_return (Failure (or_else (getErrorMessage e) ''Failed to rename''))))"

definition mergePullRequest ::
  "env \<Rightarrow> octokit option \<Rightarrow> string \<Rightarrow> string \<Rightarrow> int \<Rightarrow> MergeMethod \<Rightarrow> string option \<Rightarrow> string option
     \<Rightarrow> action_result io" where
  "mergePullRequest env octo owner repo pullNumber method commitTitle commitMessage =
     (case octo of
        None \<Rightarrow> io_return (Failure ''Not authenticated'')
      | Some _ \<Rightarrow>
          io_try
            (io_seq (perform env (PullsMerge owner repo pullNumber method
                                    (truthy commitTitle) (truthy commitMessage)))
            (io_seq (revalidateAfterPRMutation env owner repo pullNumber ''merge'')
                    (io_return Success)))
            (\<lambda>e. io_return (Failure (or_else (getErrorMessage e) ''Failed to merge''))))"

definition closePullRequest ::
  "env \<Rightarrow> octokit option \<Rightarrow> string \<Rightarrow> string \<Rightarrow> int \<Rightarrow> action_result io" where
  "closePullRequest env octo owner repo pullNumber =
     (case octo of
        None \<Rightarrow> io_return (Failure ''Not authenticated'')
      | Some _ \<Rightarrow>
          io_try
            (io_seq (perform env (PullsUpdate owner repo pullNumber (State ''closed'')))
            (io_seq (revalidateAfterPRMutation env owner repo pullNumber ''close'')
                    (io_return Success)))
            (\<lambda>e. io_return (Failure (or_else (getErrorMessage e) ''Failed to close''))))"

definition reopenPullRequest ::
  "env \<Rightarrow> octokit option \<Rightarrow> string \<Rightarrow> string \<Rightarrow> int \<Rightarrow> action_result io" where
  "reopenPullRequest env octo owner repo pullNumber =
     (case octo of
        None \<Rightarrow> io_return (Failure ''Not authenticated'')
      | Some _ \<Rightarrow>
          io_try
            (io_seq (perform env (PullsUpdate owner repo pullNumber (State ''open'')))
            (io_seq (revalidateAfterPRMutation env owner repo pullNumber ''reopen'')
                    (io_return Success)))
            (\<lambda>e. io_return (Failure (or_else (getErrorMessage e) ''Failed to reopen''))))"

definition submitPRReview ::
  "env \<Rightarrow> octokit option \<Rightarrow> string \<Rightarrow> string \<Rightarrow> int \<Rightarrow> ReviewEvent \<Rightarrow> string option \<Rightarrow> action_result io" where
  "submitPRReview env octo owner repo pullNumber event body =
     (case octo of
        None \<Rightarrow> io_return (Failure ''Not authenticated'')
      | Some _ \<Rightarrow>
          io_try
            (io_seq (perform env (PullsCreateReview owner repo pullNumber event (truthy body)))
            (io_seq (revalidateAfterPRMutation env owner repo pullNumber ''review'')
                    (io_return Success)))
            (\<lambda>e. io_return (Failure (or_else (getErrorMessage e) ''Failed to submit review''))))"

definition addPRComment ::
  "env \<Rightarrow> octokit option \<Rightarrow> string \<Rightarrow> string \<Rightarrow> int \<Rightarrow> string \<Rightarrow> action_result io" where
  "addPRComment env octo owner repo pullNumber body =
     (case octo of
        None \<Rightarrow> io_return (Failure ''Not authenticated'')
      | Some _ \<Rightarrow>
          io_try
            (io_seq (perform env (IssuesCreateComment owner repo pullNumber body))
            (io_seq (revalidateAfterPRMutation env owner repo pullNumber ''comment'')
                    (io_return Success)))
            (\<lambda>e. io_return (Failure (or_else (getErrorMessage e) ''Failed to add comment''))))"

text \<open>
  \<open>start_line\<close> and \<open>start_side\<close> are set only when \<open>startLine\<close> is given and differs from
  \<open>line\<close>; \<open>startSide || side\<close> is the start side.
\<close>

definition addPRReviewComment ::
  "env \<Rightarrow> octokit option \<Rightarrow> string \<Rightarrow> string \<Rightarrow> int \<Rightarrow> string \<Rightarrow> string \<Rightarrow> string \<Rightarrow> int \<Rightarrow> Side
     \<Rightarrow> int option \<Rightarrow> Side option \<Rightarrow> action_result io" where
  "addPRReviewComment env octo owner repo pullNumber body commitId path line side startLine startSide =
     (case octo of
        None \<Rightarrow> io_return (Failure ''Not authenticated'')
      | Some _ \<Rightarrow>
          io_try
            (let start = (case startLine of
                            None \<Rightarrow> None
                          | Some sl \<Rightarrow> (if sl \<noteq> line
                                        then Some (sl, case startSide of None \<Rightarrow> side | Some ss \<Rightarrow> ss)
                                        else None))
             in io_seq (perform env (PullsCreateReviewComment owner repo pullNumber body commitId path
                                       line side start))
               (io_seq (revalidateAfterPRMutation env owner repo pullNumber ''reviewComment'')
                       (io_return Success)))
            (\<lambda>e. io_return (Failure (or_else (getErrorMessage e) ''Failed to add review comment''))))"

text \<open>
  \<open>commitSuggestion\<close> reads the file, answers \<open>{error: "Not a file"}\<close> for a directory listing
  or an entry of another type, and writes the spliced content back.
\<close>

definition commitSuggestion ::
  "env \<Rightarrow> octokit option \<Rightarrow> string \<Rightarrow> string \<Rightarrow> int \<Rightarrow> string \<Rightarrow> string \<Rightarrow> int \<Rightarrow> int \<Rightarrow> string
     \<Rightarrow> string option \<Rightarrow> action_result io" where
  "commitSuggestion env octo owner repo pullNumber path branch startLine endLine suggestion commitMessage =
     (case octo of
        None \<Rightarrow> io_return (Failure ''Not authenticated'')
      | Some _ \<Rightarrow>
          io_try
            (io_bind (perform env (ReposGetContent owner repo path branch)) (\<lambda>v.
             io_bind (io_lift (expect_content v)) (\<lambda>fileData.
             (case fileData of
                Listing \<Rightarrow> io_return (Failure ''Not a file'')
              | Entry f \<Rightarrow>
                  (if file_type f \<noteq> ''file'' then io_return (Failure ''Not a file'')
                   else
                     io_seq (perform env (ReposCreateOrUpdateFileContents owner repo path
                               (opt_or_else commitMessage
                                  (''Apply suggestion to '' @ path @ '' (lines '' @ show_int startLine
                                     @ ''-'' @ show_int endLine @ '')''))
                               (newContent (file_content f) startLine endLine suggestion)
                               (file_sha f) branch))
                    (io_seq (revalidateAfterPRMutation env owner repo pullNumber ''suggestion'')
                            (io_return Success)))))))
            (\<lambda>e. io_return (Failure (or_else (getErrorMessage e) ''Failed to commit suggestion''))))"

definition commitFileEditOnPR ::
  "env \<Rightarrow> octokit option \<Rightarrow> string \<Rightarrow> string \<Rightarrow> int \<Rightarrow> string \<Rightarrow> string \<Rightarrow> string \<Rightarrow> string \<Rightarrow> string
     \<Rightarrow> action_result io" where
  "commitFileEditOnPR env octo owner repo pullNumber path branch content sha commitMessage =
     (case octo of
        None \<Rightarrow> io_return (Failure ''Not authenticated'')
      | Some _ \<Rightarrow>
          io_try
            (io_bind (perform env (ReposCreateOrUpdateFileContents owner repo path commitMessage
                                     content sha branch)) (\<lambda>v.
             io_bind (io_lift (expect_written v)) (\<lambda>newSha.
             io_seq (revalidateAfterPRMutation env owner repo pullNumber ''fileCommit'')
                    (io_return (SuccessNewSha newSha)))))
            (\<lambda>e. io_return (Failure (or_else (getErrorMessage e) ''Failed to commit file edit''))))"

text \<open>
  The two thread mutations post to the GraphQL endpoint with the token of \<open>getGitHubToken()\<close>
  (an empty token is falsy) and answer the first message of a non-empty \<open>errors\<close> array.
\<close>

definition resolveReviewThread ::
  "env \<Rightarrow> string option \<Rightarrow> string \<Rightarrow> string \<Rightarrow> string \<Rightarrow> int \<Rightarrow> action_result io" where
  "resolveReviewThread env token threadId owner repo pullNumber =
     (case truthy token of
        None \<Rightarrow> io_return (Failure ''Not authenticated'')
      | Some t \<Rightarrow>
          io_try
            (io_bind (perform env (Fetch t (ResolveReviewThreadMutation threadId))) (\<lambda>v.
             io_bind (io_lift (expect_response v)) (\<lambda>response.
             io_bind (io_lift (json_body response)) (\<lambda>json.
             (case errors json of
                Some (e # es) \<Rightarrow> io_return (Failure (message e))
              | _ \<Rightarrow> io_seq (revalidateAfterPRMutation env owner repo pullNumber ''resolveThread'')
                            (io_return Success))))))
            (\<lambda>e. io_return (Failure (or_else (getErrorMessage e) ''Failed to resolve thread''))))"

definition unresolveReviewThread ::
  "env \<Rightarrow> string option \<Rightarrow> string \<Rightarrow> string \<Rightarrow> string \<Rightarrow> int \<Rightarrow> action_result io" where
  "unresolveReviewThread env token threadId owner repo pullNumber =
     (case truthy token of
        None \<Rightarrow> io_return (Failure ''Not authenticated'')
      | Some t \<Rightarrow>
          io_try
            (io_bind (perform env (Fetch t (UnresolveReviewThreadMutation threadId))) (\<lambda>v.
             io_bind (io_lift (expect_response v)) (\<lambda>response.
             io_bind (io_lift (json_body response)) (\<lambda>json.
             (case errors json of
                Some (e # es) \<Rightarrow> io_return (Failure (message e))
              | _ \<Rightarrow> io_seq (revalidateAfterPRMutation env owner repo pullNumber ''unresolveThread'')
                            (io_return Success))))))
            (\<lambda>e. io_return (Failure (or_else (getErrorMessage e) ''Failed to unresolve thread''))))"

record resolved_file =
  rf_path :: string
  rf_content :: string

text \<open>The author of the merge commit: present only when \<open>getAuthenticatedUser()\<close> gave a user.\<close>

definition merge_author :: "auth_user option \<Rightarrow> string \<Rightarrow> commit_author option" where
  "merge_author user' nowIso =
     (case user' of
        None \<Rightarrow> None
      | Some u \<Rightarrow>
          Some \<lparr>commit_author_name =
                  (case truthy (auth_user_name u) of
                     Some n \<Rightarrow> n
                   | None \<Rightarrow> opt_or_else (auth_user_login u) ''User''),
                commit_author_email =
                  opt_or_else (auth_user_email u)
                    ((case auth_user_login u of None \<Rightarrow> ''undefined'' | Some l \<Rightarrow> l)
                       @ ''@users.noreply.github.com''),
                commit_author_date = nowIso\<rparr>)"

text \<open>
  \<open>commitMergeConflictResolution\<close>, steps 1 to 6 of the source. \<open>nowIso\<close> is the reading
  \<open>new Date().toISOString()\<close> of the clock.
\<close>

definition commitMergeConflictResolution ::
  "env \<Rightarrow> string \<Rightarrow> octokit option \<Rightarrow> string \<Rightarrow> string \<Rightarrow> int \<Rightarrow> string \<Rightarrow> string \<Rightarrow> resolved_file list
     \<Rightarrow> string option \<Rightarrow> action_result io" where
  "commitMergeConflictResolution env nowIso octo owner repo pullNumber headBranch baseBranch
       resolvedFiles commitMessage =
     (case octo of
        None \<Rightarrow> io_return (Failure ''Not authenticated'')
      | Some _ \<Rightarrow>
          io_try
            (io_bind (perform_all env [GitGetRef owner repo (''heads/'' @ headBranch),
                                       GitGetRef owner repo (''heads/'' @ baseBranch)]) (\<lambda>refs.
             io_bind (io_lift (expect_shas refs)) (\<lambda>shas.
             (case shas of
                [headSha, baseSha] \<Rightarrow>
                  io_bind (perform env (GitGetCommit owner repo headSha)) (\<lambda>v.
                  io_bind (io_lift (expect_commit v)) (\<lambda>headTree.
                  io_bind (perform_all env
                             (map (\<lambda>file. GitCreateBlob owner repo (rf_content file)) resolvedFiles)) (\<lambda>blobs.
                  io_bind (io_lift (expect_shas blobs)) (\<lambda>blobShas.
                  io_bind (perform env (GitCreateTree owner repo headTree
                             (map (\<lambda>(file, sha). \<lparr>entry_path = rf_path file, entry_mode = ''100644'',
                                                   entry_type = ''blob'', entry_sha = sha\<rparr>)
                                  (zip resolvedFiles blobShas)))) (\<lambda>v.
                  io_bind (io_lift (expect_sha v)) (\<lambda>newTree.
                  io_bind (perform env GetAuthenticatedUser) (\<lambda>v.
                  io_bind (io_lift (expect_user v)) (\<lambda>user'.
                  io_bind (perform env (GitCreateCommit owner repo
                             (opt_or_else commitMessage
                                (''Merge branch '' @ [CHR 0x27] @ baseBranch @ [CHR 0x27] @ '' into ''
                                   @ headBranch))
                             newTree [headSha, baseSha] (merge_author user' nowIso))) (\<lambda>v.
                  io_bind (io_lift (expect_sha v)) (\<lambda>mergeCommit.
                  io_seq (perform env (GitUpdateRef owner repo (''heads/'' @ headBranch) mergeCommit))
                 (io_seq (revalidateAfterPRMutation env owner repo pullNumber ''conflictResolution'')
                         (io_return (SuccessMergeCommit mergeCommit)))))))))))))
              | _ \<Rightarrow> io_throw type_error))))
            (\<lambda>e. io_return (Failure (or_else (getErrorMessage e) ''Failed to commit merge resolution''))))"

text \<open>
  \<open>fetchAuthorDossierGraphQL\<close> posts the query, answers \<open>null\<close> when the response is not ok
  or carries no user, and builds the dossier otherwise.
\<close>

definition fetchAuthorDossierGraphQL ::
  "env \<Rightarrow> 's scorer \<Rightarrow> string \<Rightarrow> string \<Rightarrow> string \<Rightarrow> string \<Rightarrow> 's dossier option io" where
  "fetchAuthorDossierGraphQL env computeContributorScore token owner repo authorLogin =
     io_bind (perform env (Fetch token (DossierQuery (owner @ ''/'' @ repo) authorLogin))) (\<lambda>v.
     io_bind (io_lift (expect_response v)) (\<lambda>response.
     (if \<not> ok response then io_return None
      else io_bind (io_lift (json_body response)) (\<lambda>json.
           io_return (dossier_of_json computeContributorScore json owner authorLogin)))))"

definition fetchAuthorDossier ::
  "env \<Rightarrow> 's scorer \<Rightarrow> string option \<Rightarrow> string \<Rightarrow> string \<Rightarrow> string \<Rightarrow> 's dossier option io" where
  "fetchAuthorDossier env computeContributorScore token owner repo authorLogin =
     io_try
       (case truthy token of
          None \<Rightarrow> io_return None
        | Some t \<Rightarrow> fetchAuthorDossierGraphQL env computeContributorScore t owner repo authorLogin)
       (\<lambda>e. io_seq (io_log (ConsoleError ''[fetchAuthorDossier] failed:'' e)) (io_return None))"

subsection \<open>The exported mutations as one family\<close>

text \<open>
  What the ambient lookups of a request resolve to: the client of \<open>getOctokit()\<close>, the token
  of \<open>getGitHubToken()\<close> and the reading of the clock.
\<close>

record ambient =
  getOctokit :: "octokit option"
  getGitHubToken :: "string option"
  nowIso :: string

text \<open>One constructor for each exported mutation, with the arguments of the function.\<close>

datatype mutation =
    MergePullRequest string string int MergeMethod "string option" "string option"
  | ClosePullRequest string string int
  | ReopenPullRequest string string int
  | RenamePullRequest string string int string
  | UpdatePRBaseBranch string string int string
  | SubmitPRReview string string int ReviewEvent "string option"
  | AddPRComment string string int string
  | AddPRReviewComment string string int string string string int Side "int option" "Side option"
  | CommitSuggestion string string int string string int int string "string option"
  | CommitFileEditOnPR string string int string string string string string
  | ResolveReviewThread string string string int
  | UnresolveReviewThread string string string int
  | CommitMergeConflictResolution string string int string string "resolved_file list" "string option"

fun run_mutation :: "env \<Rightarrow> ambient \<Rightarrow> mutation \<Rightarrow> action_result io" where
  "run_mutation env amb (MergePullRequest ow rp n method ct cm) =
     mergePullRequest env (getOctokit amb) ow rp n method ct cm"
| "run_mutation env amb (ClosePullRequest ow rp n) = closePullRequest env (getOctokit amb) ow rp n"
| "run_mutation env amb (ReopenPullRequest ow rp n) = reopenPullRequest env (getOctokit amb) ow rp n"
| "run_mutation env amb (RenamePullRequest ow rp n t) = renamePullRequest env (getOctokit amb) ow rp n t"
| "run_mutation env amb (UpdatePRBaseBranch ow rp n b) = updatePRBaseBranch env (getOctokit amb) ow rp n b"
| "run_mutation env amb (SubmitPRReview ow rp n ev b) = submitPRReview env (getOctokit amb) ow rp n ev b"
| "run_mutation env amb (AddPRComment ow rp n b) = addPRComment env (getOctokit amb) ow rp n b"
| "run_mutation env amb (AddPRReviewComment ow rp n b ci p l sd sl ss) =
     addPRReviewComment env (getOctokit amb) ow rp n b ci p l sd sl ss"
| "run_mutation env amb (CommitSuggestion ow rp n p br sl el sg cm) =
     commitSuggestion env (getOctokit amb) ow rp n p br sl el sg cm"
| "run_mutation env amb (CommitFileEditOnPR ow rp n p br c sh cm) =
     commitFileEditOnPR env (getOctokit amb) ow rp n p br c sh cm"
| "run_mutation env amb (ResolveReviewThread th ow rp n) =
     resolveReviewThread env (getGitHubToken amb) th ow rp n"
| "run_mutation env amb (UnresolveReviewThread th ow rp n) =
     unresolveReviewThread env (getGitHubToken amb) th ow rp n"
| "run_mutation env amb (CommitMergeConflictResolution ow rp n hb bb fs cm) =
     commitMergeConflictResolution env (nowIso amb) (getOctokit amb) ow rp n hb bb fs cm"

text \<open>The pull request a mutation is about: owner, repository and number.\<close>

fun target :: "mutation \<Rightarrow> string \<times> string \<times> int" where
  "target (MergePullRequest ow rp n method ct cm) = (ow, rp, n)"
| "target (ClosePullRequest ow rp n) = (ow, rp, n)"
| "target (ReopenPullRequest ow rp n) = (ow, rp, n)"
| "target (RenamePullRequest ow rp n t) = (ow, rp, n)"
| "target (UpdatePRBaseBranch ow rp n b) = (ow, rp, n)"
| "target (SubmitPRReview ow rp n ev b) = (ow, rp, n)"
| "target (AddPRComment ow rp n b) = (ow, rp, n)"
| "target (AddPRReviewComment ow rp n b ci p l sd sl ss) = (ow, rp, n)"
| "target (CommitSuggestion ow rp n p br sl el sg cm) = (ow, rp, n)"
| "target (CommitFileEditOnPR ow rp n p br c sh cm) = (ow, rp, n)"
| "target (ResolveReviewThread th ow rp n) = (ow, rp, n)"
| "target (UnresolveReviewThread th ow rp n) = (ow, rp, n)"
| "target (CommitMergeConflictResolution ow rp n hb bb fs cm) = (ow, rp, n)"

subsection \<open>Notions the properties are stated with\<close>

fun is_cache_call :: "call \<Rightarrow> bool" where
  "is_cache_call (InvalidatePullRequestCache ow rp n) = True"
| "is_cache_call (RevalidatePath p t) = True"
| "is_cache_call _ = False"

fun is_failure :: "action_result \<Rightarrow> bool" where
  "is_failure (Failure m) = True"
| "is_failure _ = False"

definition is_success :: "action_result \<Rightarrow> bool" where
  "is_success r = (\<not> is_failure r)"

text \<open>The call at position \<open>i\<close> of a trace threw.\<close>

definition threw_at :: "env \<Rightarrow> call list \<Rightarrow> nat \<Rightarrow> bool" where
  "threw_at env trace i = (case env (take i trace) (trace ! i) of Threw e \<Rightarrow> True | Returned v \<Rightarrow> False)"

definition some_call_threw :: "env \<Rightarrow> call list \<Rightarrow> bool" where
  "some_call_threw env trace = list_ex (threw_at env trace) [0..<length trace]"

definition some_remote_call_threw :: "env \<Rightarrow> call list \<Rightarrow> bool" where
  "some_remote_call_threw env trace =
     list_ex (\<lambda>i. \<not> is_cache_call (trace ! i) \<and> threw_at env trace i) [0..<length trace]"

definition some_cache_call_threw :: "env \<Rightarrow> call list \<Rightarrow> bool" where
  "some_cache_call_threw env trace =
     list_ex (\<lambda>i. is_cache_call (trace ! i) \<and> threw_at env trace i) [0..<length trace]"

text \<open>
  The revalidation step as the specification words it: the cache of the pull request is
  invalidated, then the scopes of the action are revalidated; merge, close and reopen
  have the detail page, the list and the layout; rename, base update and conflict
  resolution the detail page and the list; every other action the detail page.
\<close>

fun claimed_scopes :: "mutation \<Rightarrow> PRMutationScope list" where
  "claimed_scopes (MergePullRequest ow rp n method ct cm) = [ScopeDetail, ScopeList, ScopeLayout]"
| "claimed_scopes (ClosePullRequest ow rp n) = [ScopeDetail, ScopeList, ScopeLayout]"
| "claimed_scopes (ReopenPullRequest ow rp n) = [ScopeDetail, ScopeList, ScopeLayout]"
| "claimed_scopes (RenamePullRequest ow rp n t) = [ScopeDetail, ScopeList]"
| "claimed_scopes (UpdatePRBaseBranch ow rp n b) = [ScopeDetail, ScopeList]"
| "claimed_scopes (CommitMergeConflictResolution ow rp n hb bb fs cm) = [ScopeDetail, ScopeList]"
| "claimed_scopes _ = [ScopeDetail]"

fun scope_call :: "string \<Rightarrow> string \<Rightarrow> int \<Rightarrow> PRMutationScope \<Rightarrow> call" where
  "scope_call ow rp n ScopeDetail = RevalidatePath (detail_path ow rp n) None"
| "scope_call ow rp n ScopeList = RevalidatePath (list_path ow rp) None"
| "scope_call ow rp n ScopeLayout = RevalidatePath (repo_path ow rp) (Some ''layout'')"

definition revalidation_calls :: "string \<Rightarrow> string \<Rightarrow> int \<Rightarrow> PRMutationScope list \<Rightarrow> call list" where
  "revalidation_calls ow rp n scopes = InvalidatePullRequestCache ow rp n # map (scope_call ow rp n) scopes"

definition claimed_revalidation :: "mutation \<Rightarrow> call list" where
  "claimed_revalidation m = (case target m of (ow, rp, n) \<Rightarrow> revalidation_calls ow rp n (claimed_scopes m))"



subsection \<open>The contributor score\<close>

text \<open>
  Modelled from the spec: \<open>computeContributorScore\<close> (\<open>@/lib/contributor-score\<close>) is not among
  the sources. The specification fixes the shape of the score and leaves the constants to
  the implementer: each raw metric goes through a normalising signal, the three status
  flags add flat bonuses, the signals and bonuses are summed, and the sum is clamped to
  the documented range from 0 to \<open>MAX\<close> (here \<open>MAX_score\<close>). The account age is the distance
  from \<open>accountCreated\<close> to the reference instant \<open>now\<close>, zero when the date does not parse;
  the fame signal reads the highest entry of \<open>topRepoStars\<close>, zero when there is none; the
  pull-request signal reads the number of merged entries and the total.
\<close>

record score_design =
  MAX_score :: real
  followers_signal :: "nat \<Rightarrow> real"
  publicRepos_signal :: "nat \<Rightarrow> real"
  age_signal :: "int \<Rightarrow> real"
  commits_signal :: "nat \<Rightarrow> real"
  pr_mix_signal :: "nat \<Rightarrow> nat \<Rightarrow> real"
  reviews_signal :: "nat \<Rightarrow> real"
  contribution_signal :: "nat \<Rightarrow> real"
  fame_signal :: "nat \<Rightarrow> real"
  contributor_bonus :: real
  orgMember_bonus :: real
  owner_bonus :: real
  parse_instant :: "string \<Rightarrow> int option"

definition account_age :: "score_design \<Rightarrow> int \<Rightarrow> string \<Rightarrow> int" where
  "account_age design now created =
     (case parse_instant design created of None \<Rightarrow> 0 | Some t \<Rightarrow> max 0 (now - t))"

definition peak_stars :: "nat list \<Rightarrow> nat" where
  "peak_stars stars = foldr max stars 0"

definition merged_count :: "pr_entry list \<Rightarrow> nat" where
  "merged_count entries = length (filter (\<lambda>p. state p = ''merged'') entries)"

definition raw_score :: "score_design \<Rightarrow> int \<Rightarrow> ContributorSnapshot \<Rightarrow> real" where
  "raw_score design now s =
     followers_signal design (followers s)
     + publicRepos_signal design (publicRepos s)
     + age_signal design (account_age design now (accountCreated s))
     + commits_signal design (commitsInRepo s)
     + pr_mix_signal design (merged_count (prsInRepo s)) (length (prsInRepo s))
     + reviews_signal design (reviewsInRepo s)
     + contribution_signal design (contributionCount s)
     + fame_signal design (peak_stars (topRepoStars s))
     + (if isContributor s then contributor_bonus design else 0)
     + (if isOrgMember s then orgMember_bonus design else 0)
     + (if isOwner s then owner_bonus design else 0)"

text \<open>
  Modelled from the spec: the final score is clamped to the documented range after the
  summation.
\<close>

definition computeContributorScore :: "score_design \<Rightarrow> int \<Rightarrow> ContributorSnapshot \<Rightarrow> real" where
  "computeContributorScore design now s = max 0 (min (MAX_score design) (raw_score design now s))"

subsection \<open>Invariants of the computations\<close>

text \<open>Every call of a segment of the trace returned, the segment starting after \<open>tr\<close>.\<close>

fun answered_ok :: "env \<Rightarrow> call list \<Rightarrow> call list \<Rightarrow> bool" where
  "answered_ok env tr [] = True"
| "answered_ok env tr (c # cs) =
     ((case env tr c of Threw e \<Rightarrow> False | Returned v \<Rightarrow> True) \<and> answered_ok env (tr @ [c]) cs)"

definition quiet :: "call list \<Rightarrow> bool" where
  "quiet cs = list_all (\<lambda>c. \<not> is_cache_call c) cs"

text \<open>
  A computation that only talks to the remote side: it appends calls that are no cache
  calls, and when it returns a value all of them returned.
\<close>

definition remote_like :: "env \<Rightarrow> 'a io \<Rightarrow> bool" where
  "remote_like env m =
     (\<forall>tr. \<exists>cs. snd (m tr) = tr @ cs \<and> quiet cs
        \<and> ((\<exists>a. fst (m tr) = Inr a) \<longrightarrow> answered_ok env tr cs))"

fun succeeded :: "thrown + action_result \<Rightarrow> bool" where
  "succeeded (Inr r) = is_success r"
| "succeeded (Inl e) = False"

text \<open>
  The three ways the body of a mutation ends: with a success, after the remote calls and
  the whole revalidation \<open>expected\<close>, all answered; without a success and without any cache
  call; or without a success inside the revalidation, at a cache call that threw.
\<close>

definition ends_as :: "env \<Rightarrow> call list \<Rightarrow> call list \<Rightarrow> (thrown + action_result) \<times> call list \<Rightarrow> bool" where
  "ends_as env expected tr res =
     (\<exists>cs. quiet cs \<and>
        ((succeeded (fst res) \<and> snd res = tr @ cs @ expected \<and> answered_ok env tr (cs @ expected))
         \<or> (\<not> succeeded (fst res) \<and> snd res = tr @ cs)
         \<or> (\<not> succeeded (fst res) \<and> answered_ok env tr cs
              \<and> (\<exists>pre. pre \<noteq> [] \<and> (\<exists>rest. expected = pre @ rest) \<and> snd res = tr @ cs @ pre
                     \<and> \<not> answered_ok env (tr @ cs) pre))))"

definition body_like :: "env \<Rightarrow> call list \<Rightarrow> action_result io \<Rightarrow> bool" where
  "body_like env expected m = (\<forall>tr. ends_as env expected tr (m tr))"

text \<open>
  A computation that makes exactly the calls \<open>cs\<close> when all of them return, and stops at
  the first one that throws.
\<close>

definition cache_run :: "env \<Rightarrow> 'a io \<Rightarrow> call list \<Rightarrow> bool" where
  "cache_run env m cs =
     (\<forall>tr. (\<exists>a. m tr = (Inr a, tr @ cs) \<and> answered_ok env tr cs)
          \<or> (\<exists>e pre. m tr = (Inl e, tr @ pre) \<and> pre \<noteq> [] \<and> (\<exists>rest. cs = pre @ rest)
                \<and> \<not> answered_ok env tr pre))"

text \<open>The calls of \<open>revalidateAfterPRMutation\<close> for a list of scopes, in the order of its tests.\<close>

definition calls_for_scopes :: "string \<Rightarrow> string \<Rightarrow> int \<Rightarrow> PRMutationScope list \<Rightarrow> call list" where
  "calls_for_scopes ow rp n scopes =
     InvalidatePullRequestCache ow rp n
       # (if ScopeDetail \<in> set scopes then [RevalidatePath (detail_path ow rp n) None] else [])
       @ (if ScopeList \<in> set scopes then [RevalidatePath (list_path ow rp) None] else [])
       @ (if ScopeLayout \<in> set scopes then [RevalidatePath (repo_path ow rp) (Some ''layout'')] else [])"

text \<open>
  The lookup a mutation relies on resolved to a client, or to a non-empty token for the
  two thread mutations.
\<close>

fun uses_token :: "mutation \<Rightarrow> bool" where
  "uses_token (ResolveReviewThread th ow rp n) = True"
| "uses_token (UnresolveReviewThread th ow rp n) = True"
| "uses_token _ = False"

definition authenticated :: "ambient \<Rightarrow> mutation \<Rightarrow> bool" where
  "authenticated amb m =
     (if uses_token m then truthy (getGitHubToken amb) \<noteq> None else getOctokit amb \<noteq> None)"

subsection \<open>Example inputs\<close>




definition env_ok :: env where
  "env_ok tr c = Returned VUnit"

definition env_remote_fails :: env where
  "env_remote_fails tr c = (if is_cache_call c then Returned VUnit else Threw (Thrown ''Bad credentials''))"

definition env_graphql_errors :: env where
  "env_graphql_errors tr c =
     Returned (VResponse \<lparr>ok = True,
        json_body = Inr \<lparr>errors = Some [\<lparr>message = ''Could not resolve to a node''\<rparr>], data = None\<rparr>\<rparr>)"

definition amb_signed_in :: ambient where
  "amb_signed_in = \<lparr>getOctokit = Some Octokit, getGitHubToken = Some ''tok'', nowIso = ''2026-01-01T00:00:00.000Z''\<rparr>"

definition amb_signed_out :: ambient where
  "amb_signed_out = \<lparr>getOctokit = None, getGitHubToken = None, nowIso = ''2026-01-01T00:00:00.000Z''\<rparr>"

definition ex_design :: score_design where
  "ex_design = \<lparr>MAX_score = 100, followers_signal = real, publicRepos_signal = real,
     age_signal = real_of_int, commits_signal = real, pr_mix_signal = (\<lambda>m t. real m),
     reviews_signal = real, contribution_signal = real, fame_signal = real,
     contributor_bonus = 5, orgMember_bonus = 5, owner_bonus = 5,
     parse_instant = (\<lambda>s. None)\<rparr>"

definition ex_famous :: ContributorSnapshot where
  "ex_famous = \<lparr>followers = 1000000000, publicRepos = 1000000000, accountCreated = [],
     commitsInRepo = 0, prsInRepo = [], reviewsInRepo = 0, isContributor = False,
     contributionCount = 0, isOrgMember = False, isOwner = True,
     topRepoStars = [1000000000, 3]\<rparr>"

definition ex_merge :: mutation where
  "ex_merge = MergePullRequest ''o'' ''r'' 7 Squash None None"

definition ex_resolve :: mutation where
  "ex_resolve = ResolveReviewThread ''T1'' ''o'' ''r'' 7"

text \<open>Scorers to probe the call with: one that scores nothing, one that hands back what it was given.\<close>

definition no_score :: "unit scorer" where
  "no_score snap now = ()"




section \<open>Properties\<close>

subsection \<open>Lines of a file\<close>

lemma split_nl_ne: "split_nl s \<noteq> []"
  by (induction s) (auto split: list.splits)





lemma join_nl_Cons_Cons: "join_nl ((a # l) # ls) = a # join_nl (l # ls)"
  by (cases ls) simp_all

lemma join_split: "join_nl (split_nl s) = s"
  by (induction s) (auto split: list.splits simp: split_nl_ne join_nl_Cons_Cons)






subsection \<open>Comparing logins\<close>





subsection \<open>The snapshot of the dossier\<close>







subsection \<open>Rules for the computations\<close>

lemma answered_ok_append:
  "answered_ok env tr (xs @ ys) = (answered_ok env tr xs \<and> answered_ok env (tr @ xs) ys)"
  by (induction xs arbitrary: tr) auto

lemma quiet_append [simp]: "quiet (xs @ ys) = (quiet xs \<and> quiet ys)"
  by (simp add: quiet_def)

lemma quiet_Nil [simp]: "quiet []"
  by (simp add: quiet_def)

lemma remote_like_return: "remote_like env (io_return a)"
  by (simp add: remote_like_def io_return_def)

lemma remote_like_throw: "remote_like env (io_throw e)"
  by (simp add: remote_like_def io_throw_def)

lemma remote_like_lift: "remote_like env (io_lift r)"
  by (simp add: remote_like_def io_lift_def)

lemma remote_like_perform: "\<not> is_cache_call c \<Longrightarrow> remote_like env (perform env c)"
  by (auto simp: remote_like_def perform_def quiet_def split: outcome.splits)

lemma remote_like_bind:
  assumes m: "remote_like env m" and f: "\<And>a. remote_like env (f a)"
  shows "remote_like env (io_bind m f)"
  unfolding remote_like_def
proof
  fix tr
  from m obtain cs where cs: "snd (m tr) = tr @ cs" "quiet cs"
    "(\<exists>a. fst (m tr) = Inr a) \<longrightarrow> answered_ok env tr cs"
    unfolding remote_like_def by blast
  show "\<exists>cs. snd (io_bind m f tr) = tr @ cs \<and> quiet cs \<and>
          ((\<exists>a. fst (io_bind m f tr) = Inr a) \<longrightarrow> answered_ok env tr cs)"
  proof (cases "fst (m tr)")
    case (Inl e)
    then have "io_bind m f tr = (Inl e, tr @ cs)"
      using cs(1) by (cases "m tr") (simp add: io_bind_def)
    then show ?thesis using cs(2) by auto
  next
    case (Inr a)
    then have run: "io_bind m f tr = f a (tr @ cs)"
      using cs(1) by (cases "m tr") (simp add: io_bind_def)
    from f[of a] obtain ds where ds: "snd (f a (tr @ cs)) = (tr @ cs) @ ds" "quiet ds"
      "(\<exists>b. fst (f a (tr @ cs)) = Inr b) \<longrightarrow> answered_ok env (tr @ cs) ds"
      unfolding remote_like_def by blast
    have "answered_ok env tr cs" using cs(3) Inr by blast
    then show ?thesis
      using ds cs(2) by (intro exI[of _ "cs @ ds"]) (simp add: run answered_ok_append)
  qed
qed

lemma remote_like_seq: "remote_like env m \<Longrightarrow> remote_like env n \<Longrightarrow> remote_like env (io_seq m n)"
  by (simp add: io_seq_def remote_like_bind)

lemma start_all_trace: "snd (start_all env cs tr) = tr @ cs"
proof (induction cs arbitrary: tr)
  case Nil
  show ?case by simp
next
  case (Cons c cs)
  have "snd (start_all env cs (tr @ [c])) = (tr @ [c]) @ cs" by (rule Cons.IH)
  then show ?case by (cases "start_all env cs (tr @ [c])") simp
qed

lemma start_all_settled:
  "settle_all (fst (start_all env cs tr)) = Inr vs \<Longrightarrow> answered_ok env tr cs"
proof (induction cs arbitrary: tr vs)
  case Nil
  then show ?case by simp
next
  case (Cons c cs)
  obtain outs tr' where run: "start_all env cs (tr @ [c]) = (outs, tr')"
    by (cases "start_all env cs (tr @ [c])")
  show ?case
  proof (cases "env tr c")
    case (Threw e)
    with Cons.prems run show ?thesis by simp
  next
    case (Returned v)
    with Cons.prems run obtain ws where "settle_all outs = Inr ws"
      by (cases "settle_all outs") auto
    then have "answered_ok env (tr @ [c]) cs"
      using Cons.IH[of "tr @ [c]" ws] run by simp
    with Returned show ?thesis by simp
  qed
qed

lemma remote_like_perform_all:
  assumes "list_all (\<lambda>c. \<not> is_cache_call c) cs"
  shows "remote_like env (perform_all env cs)"
  unfolding remote_like_def
proof
  fix tr
  obtain outs tr' where run: "start_all env cs tr = (outs, tr')"
    by (cases "start_all env cs tr")
  have tr': "tr' = tr @ cs"
    using start_all_trace[of env cs tr] run by simp
  have res: "perform_all env cs tr = (settle_all outs, tr @ cs)"
    by (simp add: perform_all_def run tr')
  have "(\<exists>a. settle_all outs = Inr a) \<longrightarrow> answered_ok env tr cs"
    using start_all_settled[of env cs tr] run by auto
  then show "\<exists>ds. snd (perform_all env cs tr) = tr @ ds \<and> quiet ds \<and>
          ((\<exists>a. fst (perform_all env cs tr) = Inr a) \<longrightarrow> answered_ok env tr ds)"
    using assms by (intro exI[of _ cs]) (simp add: res quiet_def)
qed


lemma cache_run_return: "cache_run env (io_return a) []"
  by (simp add: cache_run_def io_return_def)

lemma cache_run_perform: "cache_run env (perform env c) [c]"
  by (auto simp: cache_run_def perform_def split: outcome.splits)

lemma cache_run_bind:
  assumes m: "cache_run env m cs" and f: "\<And>a. cache_run env (f a) ds"
  shows "cache_run env (io_bind m f) (cs @ ds)"
  unfolding cache_run_def
proof
  fix tr
  from m have "(\<exists>a. m tr = (Inr a, tr @ cs) \<and> answered_ok env tr cs)
          \<or> (\<exists>e pre. m tr = (Inl e, tr @ pre) \<and> pre \<noteq> [] \<and> (\<exists>rest. cs = pre @ rest)
                \<and> \<not> answered_ok env tr pre)"
    unfolding cache_run_def by blast
  then show "(\<exists>a. io_bind m f tr = (Inr a, tr @ cs @ ds) \<and> answered_ok env tr (cs @ ds))
          \<or> (\<exists>e pre. io_bind m f tr = (Inl e, tr @ pre) \<and> pre \<noteq> [] \<and> (\<exists>rest. cs @ ds = pre @ rest)
                \<and> \<not> answered_ok env tr pre)"
  proof
    assume "\<exists>a. m tr = (Inr a, tr @ cs) \<and> answered_ok env tr cs"
    then obtain a where a: "m tr = (Inr a, tr @ cs)" "answered_ok env tr cs" by blast
    have run: "io_bind m f tr = f a (tr @ cs)" by (simp add: io_bind_def a)
    from f[of a] have "(\<exists>b. f a (tr @ cs) = (Inr b, (tr @ cs) @ ds) \<and> answered_ok env (tr @ cs) ds)
          \<or> (\<exists>e pre. f a (tr @ cs) = (Inl e, (tr @ cs) @ pre) \<and> pre \<noteq> [] \<and> (\<exists>rest. ds = pre @ rest)
                \<and> \<not> answered_ok env (tr @ cs) pre)"
      unfolding cache_run_def by blast
    then show ?thesis
    proof
      assume "\<exists>b. f a (tr @ cs) = (Inr b, (tr @ cs) @ ds) \<and> answered_ok env (tr @ cs) ds"
      then show ?thesis using a(2) by (auto simp: run answered_ok_append)
    next
      assume "\<exists>e pre. f a (tr @ cs) = (Inl e, (tr @ cs) @ pre) \<and> pre \<noteq> [] \<and> (\<exists>rest. ds = pre @ rest)
                \<and> \<not> answered_ok env (tr @ cs) pre"
      then obtain e pre rest where p: "f a (tr @ cs) = (Inl e, (tr @ cs) @ pre)" "pre \<noteq> []"
        "ds = pre @ rest" "\<not> answered_ok env (tr @ cs) pre" by blast
      have "io_bind m f tr = (Inl e, tr @ (cs @ pre))" using p(1) by (simp add: run)
      moreover have "cs @ pre \<noteq> []" using p(2) by simp
      moreover have "cs @ ds = (cs @ pre) @ rest" using p(3) by simp
      moreover have "\<not> answered_ok env tr (cs @ pre)" using p(4) by (simp add: answered_ok_append)
      ultimately show ?thesis by blast
    qed
  next
    assume "\<exists>e pre. m tr = (Inl e, tr @ pre) \<and> pre \<noteq> [] \<and> (\<exists>rest. cs = pre @ rest)
                \<and> \<not> answered_ok env tr pre"
    then obtain e pre rest where p: "m tr = (Inl e, tr @ pre)" "pre \<noteq> []" "cs = pre @ rest"
      "\<not> answered_ok env tr pre" by blast
    have "io_bind m f tr = (Inl e, tr @ pre)" by (simp add: io_bind_def p(1))
    moreover have "cs @ ds = pre @ (rest @ ds)" using p(3) by simp
    ultimately show ?thesis using p(2,4) by blast
  qed
qed

lemma cache_run_seq:
  "cache_run env m cs \<Longrightarrow> cache_run env n ds \<Longrightarrow> cache_run env (io_seq m n) (cs @ ds)"
  by (simp add: io_seq_def cache_run_bind)

lemma cache_run_when:
  "cache_run env (io_when b (perform env c)) (if b then [c] else [])"
proof (cases b)
  case True
  have "cache_run env (io_bind (perform env c) (\<lambda>_. io_return ())) ([c] @ [])"
    by (intro cache_run_bind cache_run_perform cache_run_return)
  then show ?thesis using True by (simp add: io_when_def)
next
  case False
  then show ?thesis by (simp add: io_when_def cache_run_return)
qed

lemma cache_run_revalidate:
  "cache_run env (revalidateAfterPRMutation env ow rp n action)
     (calls_for_scopes ow rp n
        (case map_of PR_ACTION_SCOPES action of None \<Rightarrow> [ScopeDetail] | Some ss \<Rightarrow> ss))"
proof -
  let ?scopes = "case map_of PR_ACTION_SCOPES action of None \<Rightarrow> [ScopeDetail] | Some ss \<Rightarrow> ss"
  have "cache_run env
     (io_seq (perform env (InvalidatePullRequestCache ow rp n))
        (io_seq (io_when (ScopeDetail \<in> set ?scopes)
                   (perform env (RevalidatePath (detail_path ow rp n) None)))
        (io_seq (io_when (ScopeList \<in> set ?scopes)
                   (perform env (RevalidatePath (list_path ow rp) None)))
                (io_when (ScopeLayout \<in> set ?scopes)
                   (perform env (RevalidatePath (repo_path ow rp) (Some ''layout'')))))))
     ([InvalidatePullRequestCache ow rp n]
       @ (if ScopeDetail \<in> set ?scopes then [RevalidatePath (detail_path ow rp n) None] else [])
       @ (if ScopeList \<in> set ?scopes then [RevalidatePath (list_path ow rp) None] else [])
       @ (if ScopeLayout \<in> set ?scopes then [RevalidatePath (repo_path ow rp) (Some ''layout'')] else []))"
    by (intro cache_run_seq cache_run_perform cache_run_when)
  then show ?thesis
    by (simp add: revalidateAfterPRMutation_def calls_for_scopes_def Let_def)
qed

lemma ends_asI1:
  "quiet cs \<Longrightarrow> succeeded (fst res) \<Longrightarrow> snd res = tr @ cs @ expected
     \<Longrightarrow> answered_ok env tr (cs @ expected) \<Longrightarrow> ends_as env expected tr res"
  unfolding ends_as_def by blast

lemma ends_asI2:
  "quiet cs \<Longrightarrow> \<not> succeeded (fst res) \<Longrightarrow> snd res = tr @ cs \<Longrightarrow> ends_as env expected tr res"
  unfolding ends_as_def by blast

lemma ends_asI3:
  "quiet cs \<Longrightarrow> \<not> succeeded (fst res) \<Longrightarrow> answered_ok env tr cs \<Longrightarrow> pre \<noteq> []
     \<Longrightarrow> expected = pre @ rest \<Longrightarrow> snd res = tr @ cs @ pre \<Longrightarrow> \<not> answered_ok env (tr @ cs) pre
     \<Longrightarrow> ends_as env expected tr res"
  unfolding ends_as_def by blast

lemma body_like_tail:
  assumes m: "cache_run env m expected" and s: "is_success s"
  shows "body_like env expected (io_seq m (io_return s))"
  unfolding body_like_def
proof
  fix tr
  from m have "(\<exists>a. m tr = (Inr a, tr @ expected) \<and> answered_ok env tr expected)
          \<or> (\<exists>e pre. m tr = (Inl e, tr @ pre) \<and> pre \<noteq> [] \<and> (\<exists>rest. expected = pre @ rest)
                \<and> \<not> answered_ok env tr pre)"
    unfolding cache_run_def by blast
  then show "ends_as env expected tr (io_seq m (io_return s) tr)"
  proof
    assume "\<exists>a. m tr = (Inr a, tr @ expected) \<and> answered_ok env tr expected"
    then obtain a where a: "m tr = (Inr a, tr @ expected)" "answered_ok env tr expected" by blast
    have "io_seq m (io_return s) tr = (Inr s, tr @ expected)"
      by (simp add: io_seq_def io_bind_def io_return_def a(1))
    then show ?thesis using s a(2) by (intro ends_asI1[of "[]"]) simp_all
  next
    assume "\<exists>e pre. m tr = (Inl e, tr @ pre) \<and> pre \<noteq> [] \<and> (\<exists>rest. expected = pre @ rest)
                \<and> \<not> answered_ok env tr pre"
    then obtain e pre rest where p: "m tr = (Inl e, tr @ pre)" "pre \<noteq> []" "expected = pre @ rest"
      "\<not> answered_ok env tr pre" by blast
    have "io_seq m (io_return s) tr = (Inl e, tr @ pre)"
      by (simp add: io_seq_def io_bind_def p(1))
    then show ?thesis using p by (intro ends_asI3[of "[]" _ _ _ pre _ rest]) simp_all
  qed
qed

lemma body_like_failure: "body_like env expected (io_return (Failure msg))"
  unfolding body_like_def by (intro allI ends_asI2[of "[]"]) (simp_all add: io_return_def is_success_def)

lemma body_like_throw: "body_like env expected (io_throw e)"
  unfolding body_like_def by (intro allI ends_asI2[of "[]"]) (simp_all add: io_throw_def)

lemma body_like_bind:
  assumes m: "remote_like env m" and f: "\<And>a. body_like env expected (f a)"
  shows "body_like env expected (io_bind m f)"
  unfolding body_like_def
proof
  fix tr
  from m obtain cs where cs: "snd (m tr) = tr @ cs" "quiet cs"
    "(\<exists>a. fst (m tr) = Inr a) \<longrightarrow> answered_ok env tr cs"
    unfolding remote_like_def by blast
  show "ends_as env expected tr (io_bind m f tr)"
  proof (cases "fst (m tr)")
    case (Inl e)
    then have "io_bind m f tr = (Inl e, tr @ cs)"
      using cs(1) by (cases "m tr") (simp add: io_bind_def)
    then show ?thesis using cs(2) by (intro ends_asI2[of cs]) simp_all
  next
    case (Inr a)
    then have run: "io_bind m f tr = f a (tr @ cs)"
      using cs(1) by (cases "m tr") (simp add: io_bind_def)
    have ok: "answered_ok env tr cs" using cs(3) Inr by blast
    let ?res = "f a (tr @ cs)"
    from f[of a] have "ends_as env expected (tr @ cs) ?res"
      unfolding body_like_def by blast
    then obtain ds where ds: "quiet ds"
      "(succeeded (fst ?res) \<and> snd ?res = (tr @ cs) @ ds @ expected
          \<and> answered_ok env (tr @ cs) (ds @ expected))
       \<or> (\<not> succeeded (fst ?res) \<and> snd ?res = (tr @ cs) @ ds)
       \<or> (\<not> succeeded (fst ?res) \<and> answered_ok env (tr @ cs) ds
            \<and> (\<exists>pre. pre \<noteq> [] \<and> (\<exists>rest. expected = pre @ rest) \<and> snd ?res = (tr @ cs) @ ds @ pre
                   \<and> \<not> answered_ok env ((tr @ cs) @ ds) pre))"
      unfolding ends_as_def by blast
    have q: "quiet (cs @ ds)" using cs(2) ds(1) by simp
    from ds(2) show ?thesis
    proof (elim disjE conjE exE)
      assume "succeeded (fst ?res)" "snd ?res = (tr @ cs) @ ds @ expected"
        "answered_ok env (tr @ cs) (ds @ expected)"
      then show ?thesis
        using q ok unfolding run by (intro ends_asI1[of "cs @ ds"]) (simp_all add: answered_ok_append)
    next
      assume "\<not> succeeded (fst ?res)" "snd ?res = (tr @ cs) @ ds"
      then show ?thesis
        using q unfolding run by (intro ends_asI2[of "cs @ ds"]) simp_all
    next
      fix pre rest
      assume "\<not> succeeded (fst ?res)" "answered_ok env (tr @ cs) ds" "pre \<noteq> []"
        "expected = pre @ rest" "snd ?res = (tr @ cs) @ ds @ pre"
        "\<not> answered_ok env ((tr @ cs) @ ds) pre"
      then show ?thesis
        using q ok unfolding run
        by (intro ends_asI3[of "cs @ ds" _ _ _ pre _ rest]) (simp_all add: answered_ok_append)
    qed
  qed
qed

lemma body_like_seq:
  "remote_like env m \<Longrightarrow> body_like env expected n \<Longrightarrow> body_like env expected (io_seq m n)"
  by (simp add: io_seq_def body_like_bind)

lemma try_total: "\<exists>r. fst (io_try m (\<lambda>e. io_return (h e)) tr) = Inr r"
  by (cases "m tr"; cases "fst (m tr)") (auto simp: io_try_def io_return_def)

lemma body_like_try:
  assumes "body_like env expected m"
  shows "body_like env expected (io_try m (\<lambda>e. io_return (Failure (h e))))"
  unfolding body_like_def
proof
  fix tr
  let ?t = "io_try m (\<lambda>e. io_return (Failure (h e))) tr"
  have e: "ends_as env expected tr (m tr)" using assms unfolding body_like_def by blast
  have "snd ?t = snd (m tr)" "succeeded (fst ?t) = succeeded (fst (m tr))"
    by (cases "m tr"; cases "fst (m tr)"; simp add: io_try_def io_return_def is_success_def)+
  then show "ends_as env expected tr ?t"
    using e unfolding ends_as_def by simp
qed

lemma scopes3: "calls_for_scopes ow rp n [ScopeDetail, ScopeList, ScopeLayout]
   = revalidation_calls ow rp n [ScopeDetail, ScopeList, ScopeLayout]"
  by (simp add: calls_for_scopes_def revalidation_calls_def)

lemma scopes2: "calls_for_scopes ow rp n [ScopeDetail, ScopeList]
   = revalidation_calls ow rp n [ScopeDetail, ScopeList]"
  by (simp add: calls_for_scopes_def revalidation_calls_def)

lemma scopes1: "calls_for_scopes ow rp n [ScopeDetail] = revalidation_calls ow rp n [ScopeDetail]"
  by (simp add: calls_for_scopes_def revalidation_calls_def)

lemma table_lookups:
  "map_of PR_ACTION_SCOPES ''merge'' = Some [ScopeDetail, ScopeList, ScopeLayout]"
  "map_of PR_ACTION_SCOPES ''close'' = Some [ScopeDetail, ScopeList, ScopeLayout]"
  "map_of PR_ACTION_SCOPES ''reopen'' = Some [ScopeDetail, ScopeList, ScopeLayout]"
  "map_of PR_ACTION_SCOPES ''rename'' = Some [ScopeDetail, ScopeList]"
  "map_of PR_ACTION_SCOPES ''updateBase'' = Some [ScopeDetail, ScopeList]"
  "map_of PR_ACTION_SCOPES ''review'' = Some [ScopeDetail]"
  "map_of PR_ACTION_SCOPES ''comment'' = Some [ScopeDetail]"
  "map_of PR_ACTION_SCOPES ''reviewComment'' = Some [ScopeDetail]"
  "map_of PR_ACTION_SCOPES ''suggestion'' = Some [ScopeDetail]"
  "map_of PR_ACTION_SCOPES ''fileCommit'' = Some [ScopeDetail]"
  "map_of PR_ACTION_SCOPES ''resolveThread'' = Some [ScopeDetail]"
  "map_of PR_ACTION_SCOPES ''unresolveThread'' = Some [ScopeDetail]"
  "map_of PR_ACTION_SCOPES ''conflictResolution'' = Some [ScopeDetail, ScopeList]"
  by (simp_all add: PR_ACTION_SCOPES_def)

lemma revalidate_known:
  assumes "map_of PR_ACTION_SCOPES action = Some ss"
  shows "cache_run env (revalidateAfterPRMutation env ow rp n action) (calls_for_scopes ow rp n ss)"
  using cache_run_revalidate[of env ow rp n action] assms by simp

lemma merge_body:
  "body_like env (revalidation_calls ow rp n [ScopeDetail, ScopeList, ScopeLayout])
     (mergePullRequest env (Some c) ow rp n method ct cm)"
  unfolding mergePullRequest_def scopes3[symmetric]
  by (simp, intro body_like_try body_like_seq body_like_tail remote_like_perform
        revalidate_known table_lookups) (simp_all add: is_success_def)

subsection \<open>The body of each mutation\<close>

lemma close_body:
  "body_like env (revalidation_calls ow rp n [ScopeDetail, ScopeList, ScopeLayout])
     (closePullRequest env (Some c) ow rp n)"
  unfolding closePullRequest_def scopes3[symmetric]
  by (simp, intro body_like_try body_like_seq body_like_tail remote_like_perform
        revalidate_known table_lookups) (simp_all add: is_success_def)

lemma reopen_body:
  "body_like env (revalidation_calls ow rp n [ScopeDetail, ScopeList, ScopeLayout])
     (reopenPullRequest env (Some c) ow rp n)"
  unfolding reopenPullRequest_def scopes3[symmetric]
  by (simp, intro body_like_try body_like_seq body_like_tail remote_like_perform
        revalidate_known table_lookups) (simp_all add: is_success_def)

lemma rename_body:
  "body_like env (revalidation_calls ow rp n [ScopeDetail, ScopeList])
     (renamePullRequest env (Some c) ow rp n t)"
  unfolding renamePullRequest_def scopes2[symmetric]
  by (simp, intro body_like_try body_like_seq body_like_tail remote_like_perform
        revalidate_known table_lookups) (simp_all add: is_success_def)

lemma updateBase_body:
  "body_like env (revalidation_calls ow rp n [ScopeDetail, ScopeList])
     (updatePRBaseBranch env (Some c) ow rp n b)"
  unfolding updatePRBaseBranch_def scopes2[symmetric]
  by (simp, intro body_like_try body_like_seq body_like_tail remote_like_perform
        revalidate_known table_lookups) (simp_all add: is_success_def)

lemma review_body:
  "body_like env (revalidation_calls ow rp n [ScopeDetail])
     (submitPRReview env (Some c) ow rp n ev b)"
  unfolding submitPRReview_def scopes1[symmetric]
  by (simp, intro body_like_try body_like_seq body_like_tail remote_like_perform
        revalidate_known table_lookups) (simp_all add: is_success_def)

lemma comment_body:
  "body_like env (revalidation_calls ow rp n [ScopeDetail])
     (addPRComment env (Some c) ow rp n b)"
  unfolding addPRComment_def scopes1[symmetric]
  by (simp, intro body_like_try body_like_seq body_like_tail remote_like_perform
        revalidate_known table_lookups) (simp_all add: is_success_def)

lemma reviewComment_body:
  "body_like env (revalidation_calls ow rp n [ScopeDetail])
     (addPRReviewComment env (Some c) ow rp n b ci p l sd sl ss)"
  unfolding addPRReviewComment_def scopes1[symmetric] Let_def
  by (simp, intro body_like_try body_like_seq body_like_tail remote_like_perform
        revalidate_known table_lookups) (simp_all add: is_success_def)

lemma suggestion_tail:
  "body_like env (calls_for_scopes ow rp n [ScopeDetail])
     (case fileData of
        Listing \<Rightarrow> io_return (Failure ''Not a file'')
      | Entry f \<Rightarrow>
          (if file_type f \<noteq> ''file'' then io_return (Failure ''Not a file'')
           else io_seq (perform env (ReposCreateOrUpdateFileContents ow rp p msg (cont f) (file_sha f) br))
               (io_seq (revalidateAfterPRMutation env ow rp n ''suggestion'') (io_return Success))))"
proof (cases fileData)
  case Listing
  then show ?thesis by (simp add: body_like_failure)
next
  case (Entry f)
  show ?thesis
  proof (cases "file_type f = ''file''")
    case True
    have "body_like env (calls_for_scopes ow rp n [ScopeDetail])
            (io_seq (perform env (ReposCreateOrUpdateFileContents ow rp p msg (cont f) (file_sha f) br))
               (io_seq (revalidateAfterPRMutation env ow rp n ''suggestion'') (io_return Success)))"
      by (intro body_like_seq body_like_tail remote_like_perform revalidate_known table_lookups)
         (simp_all add: is_success_def)
    then show ?thesis using Entry True by simp
  next
    case False
    then show ?thesis using Entry by (simp add: body_like_failure)
  qed
qed

lemma suggestion_body:
  "body_like env (revalidation_calls ow rp n [ScopeDetail])
     (commitSuggestion env (Some c) ow rp n p br sl el sg cm)"
  unfolding commitSuggestion_def scopes1[symmetric]
  by (simp, intro body_like_try body_like_bind remote_like_perform remote_like_lift suggestion_tail)
     simp_all

lemma fileCommit_body:
  "body_like env (revalidation_calls ow rp n [ScopeDetail])
     (commitFileEditOnPR env (Some c) ow rp n p br ct sh cm)"
  unfolding commitFileEditOnPR_def scopes1[symmetric]
  by (simp, intro body_like_try body_like_bind body_like_tail remote_like_perform remote_like_lift
        revalidate_known table_lookups) (simp_all add: is_success_def)

lemma thread_tail:
  assumes "map_of PR_ACTION_SCOPES action = Some [ScopeDetail]"
  shows "body_like env (calls_for_scopes ow rp n [ScopeDetail])
     (case errors json of
        Some (e # es) \<Rightarrow> io_return (Failure (message e))
      | _ \<Rightarrow> io_seq (revalidateAfterPRMutation env ow rp n action) (io_return Success))"
proof -
  have t: "body_like env (calls_for_scopes ow rp n [ScopeDetail])
     (io_seq (revalidateAfterPRMutation env ow rp n action) (io_return Success))"
    by (intro body_like_tail revalidate_known assms) (simp add: is_success_def)
  show ?thesis
    by (cases "errors json"; cases "the (errors json)") (simp_all add: t body_like_failure)
qed

lemma resolve_body:
  assumes "truthy tok = Some t"
  shows "body_like env (revalidation_calls ow rp n [ScopeDetail])
     (resolveReviewThread env tok th ow rp n)"
  unfolding resolveReviewThread_def scopes1[symmetric]
  by (simp add: assms, intro body_like_try body_like_bind remote_like_perform remote_like_lift
        thread_tail table_lookups) simp_all

lemma unresolve_body:
  assumes "truthy tok = Some t"
  shows "body_like env (revalidation_calls ow rp n [ScopeDetail])
     (unresolveReviewThread env tok th ow rp n)"
  unfolding unresolveReviewThread_def scopes1[symmetric]
  by (simp add: assms, intro body_like_try body_like_bind remote_like_perform remote_like_lift
        thread_tail table_lookups) simp_all

lemma body_like_two_shas:
  assumes "\<And>h b. body_like env expected (k h b)"
  shows "body_like env expected (case shas of [] \<Rightarrow> io_throw type_error
           | [h] \<Rightarrow> io_throw type_error
           | [h, b] \<Rightarrow> k h b
           | h # b # x # xs \<Rightarrow> io_throw type_error)"
  using assms by (auto simp: body_like_throw split: list.splits)

lemma blobs_quiet:
  "list_all (\<lambda>c. \<not> is_cache_call c) (map (\<lambda>file. GitCreateBlob ow rp (rf_content file)) fs)"
  by (induction fs) simp_all

lemma reval_tail:
  assumes "map_of PR_ACTION_SCOPES action = Some ss" and "is_success s"
  shows "body_like env (calls_for_scopes ow rp n ss)
           (io_seq (revalidateAfterPRMutation env ow rp n action) (io_return s))"
  using assms by (intro body_like_tail revalidate_known)

lemma conflict_last_steps:
  "body_like env (calls_for_scopes ow rp n [ScopeDetail, ScopeList])
     (io_seq (perform env (GitUpdateRef ow rp ref sha))
        (io_seq (revalidateAfterPRMutation env ow rp n ''conflictResolution'')
                (io_return (SuccessMergeCommit sha))))"
proof (rule body_like_seq)
  show "remote_like env (perform env (GitUpdateRef ow rp ref sha))"
    by (rule remote_like_perform) simp
  show "body_like env (calls_for_scopes ow rp n [ScopeDetail, ScopeList])
     (io_seq (revalidateAfterPRMutation env ow rp n ''conflictResolution'')
             (io_return (SuccessMergeCommit sha)))"
    by (rule reval_tail) (simp_all add: table_lookups is_success_def)
qed

lemma conflict_body:
  "body_like env (revalidation_calls ow rp n [ScopeDetail, ScopeList])
     (commitMergeConflictResolution env now (Some c) ow rp n hb bb fs cm)"
  unfolding commitMergeConflictResolution_def scopes2[symmetric]
  apply simp
  apply (intro body_like_try body_like_bind remote_like_perform_all remote_like_lift)
   apply simp
  apply (rule body_like_two_shas)
  apply (intro body_like_bind remote_like_perform remote_like_lift
      remote_like_perform_all blobs_quiet conflict_last_steps)
      apply simp_all
  done

subsection \<open>Every mutation\<close>

lemma run_mutation_body:
  assumes "authenticated amb m"
  shows "body_like env (claimed_revalidation m) (run_mutation env amb m)"
proof (cases m)
  case (MergePullRequest ow rp n mm ct cm)
  then show ?thesis using assms merge_body[of env ow rp n _ mm ct cm]
    by (auto simp: authenticated_def claimed_revalidation_def)
next
  case (ClosePullRequest ow rp n)
  then show ?thesis using assms close_body[of env ow rp n]
    by (auto simp: authenticated_def claimed_revalidation_def)
next
  case (ReopenPullRequest ow rp n)
  then show ?thesis using assms reopen_body[of env ow rp n]
    by (auto simp: authenticated_def claimed_revalidation_def)
next
  case (RenamePullRequest ow rp n t)
  then show ?thesis using assms rename_body[of env ow rp n _ t]
    by (auto simp: authenticated_def claimed_revalidation_def)
next
  case (UpdatePRBaseBranch ow rp n b)
  then show ?thesis using assms updateBase_body[of env ow rp n _ b]
    by (auto simp: authenticated_def claimed_revalidation_def)
next
  case (SubmitPRReview ow rp n ev b)
  then show ?thesis using assms review_body[of env ow rp n _ ev b]
    by (auto simp: authenticated_def claimed_revalidation_def)
next
  case (AddPRComment ow rp n b)
  then show ?thesis using assms comment_body[of env ow rp n _ b]
    by (auto simp: authenticated_def claimed_revalidation_def)
next
  case (AddPRReviewComment ow rp n b ci p l sd sl ss)
  then show ?thesis using assms reviewComment_body[of env ow rp n _ b ci p l sd sl ss]
    by (auto simp: authenticated_def claimed_revalidation_def)
next
  case (CommitSuggestion ow rp n p br sl el sg cm)
  then show ?thesis using assms suggestion_body[of env ow rp n _ p br sl el sg cm]
    by (auto simp: authenticated_def claimed_revalidation_def)
next
  case (CommitFileEditOnPR ow rp n p br c sh cm)
  then show ?thesis using assms fileCommit_body[of env ow rp n _ p br c sh cm]
    by (auto simp: authenticated_def claimed_revalidation_def)
next
  case (ResolveReviewThread th ow rp n)
  then show ?thesis using assms resolve_body[of "getGitHubToken amb" _ env ow rp n th]
    by (auto simp: authenticated_def claimed_revalidation_def)
next
  case (UnresolveReviewThread th ow rp n)
  then show ?thesis using assms unresolve_body[of "getGitHubToken amb" _ env ow rp n th]
    by (auto simp: authenticated_def claimed_revalidation_def)
next
  case (CommitMergeConflictResolution ow rp n hb bb fs cm)
  then show ?thesis using assms conflict_body[of env ow rp n "nowIso amb" _ hb bb fs cm]
    by (auto simp: authenticated_def claimed_revalidation_def)
qed

lemma run_mutation_unauthenticated:
  assumes "\<not> authenticated amb m"
  shows "run_mutation env amb m tr = (Inr (Failure ''Not authenticated''), tr)"
  using assms
  by (cases m)
     (simp_all add: authenticated_def io_return_def mergePullRequest_def closePullRequest_def
        reopenPullRequest_def renamePullRequest_def updatePRBaseBranch_def submitPRReview_def
        addPRComment_def addPRReviewComment_def commitSuggestion_def commitFileEditOnPR_def
        resolveReviewThread_def unresolveReviewThread_def commitMergeConflictResolution_def)

lemma run_mutation_ends:
  "ends_as env (claimed_revalidation m) tr (run_mutation env amb m tr)"
proof (cases "authenticated amb m")
  case True
  then show ?thesis using run_mutation_body[of amb m env] by (simp add: body_like_def)
next
  case False
  then show ?thesis
    by (intro ends_asI2[of "[]"]) (simp_all add: run_mutation_unauthenticated is_success_def)
qed

lemma run_mutation_total: "\<exists>r. fst (run_mutation env amb m tr) = Inr r"
proof (cases "authenticated amb m")
  case False
  then show ?thesis by (simp add: run_mutation_unauthenticated)
next
  case True
  then show ?thesis
    by (cases m)
       (auto simp: authenticated_def mergePullRequest_def closePullRequest_def
        reopenPullRequest_def renamePullRequest_def updatePRBaseBranch_def submitPRReview_def
        addPRComment_def addPRReviewComment_def commitSuggestion_def commitFileEditOnPR_def
        resolveReviewThread_def unresolveReviewThread_def commitMergeConflictResolution_def
        intro: try_total)
qed

subsection \<open>Traces\<close>

lemma answered_ok_iff:
  "answered_ok env tr cs \<longleftrightarrow> (\<forall>i<length cs. \<not> threw_at env (tr @ cs) (length tr + i))"
proof (induction cs arbitrary: tr)
  case Nil
  show ?case by simp
next
  case (Cons c cs)
  have step: "(\<forall>i<length (c # cs). \<not> threw_at env (tr @ c # cs) (length tr + i))
      \<longleftrightarrow> (\<not> threw_at env (tr @ c # cs) (length tr)
           \<and> (\<forall>i<length cs. \<not> threw_at env ((tr @ [c]) @ cs) (length (tr @ [c]) + i)))"
  proof
    assume a: "\<forall>i<length (c # cs). \<not> threw_at env (tr @ c # cs) (length tr + i)"
    have "\<not> threw_at env (tr @ c # cs) (length tr)" using a[rule_format, of 0] by simp
    moreover have "\<forall>i<length cs. \<not> threw_at env ((tr @ [c]) @ cs) (length (tr @ [c]) + i)"
      using a[rule_format, of "Suc i" for i] by simp
    ultimately show "\<not> threw_at env (tr @ c # cs) (length tr)
           \<and> (\<forall>i<length cs. \<not> threw_at env ((tr @ [c]) @ cs) (length (tr @ [c]) + i))" by blast
  next
    assume a: "\<not> threw_at env (tr @ c # cs) (length tr)
           \<and> (\<forall>i<length cs. \<not> threw_at env ((tr @ [c]) @ cs) (length (tr @ [c]) + i))"
    show "\<forall>i<length (c # cs). \<not> threw_at env (tr @ c # cs) (length tr + i)"
    proof (intro allI impI)
      fix i assume "i < length (c # cs)"
      then show "\<not> threw_at env (tr @ c # cs) (length tr + i)"
        using a by (cases i) auto
    qed
  qed
  have head: "threw_at env (tr @ c # cs) (length tr) = (case env tr c of Threw e \<Rightarrow> True | Returned v \<Rightarrow> False)"
    by (simp add: threw_at_def)
  show ?case
    unfolding step using Cons.IH[of "tr @ [c]"] head by (auto split: outcome.splits)
qed

lemma answered_ok_no_throw: "answered_ok env [] cs \<longleftrightarrow> \<not> some_call_threw env cs"
  using answered_ok_iff[of env "[]" cs] by (auto simp: some_call_threw_def list_ex_iff)

lemma threw_at_prefix: "i < length cs \<Longrightarrow> threw_at env (cs @ ds) i = threw_at env cs i"
  by (simp add: threw_at_def nth_append)

lemma remote_threw_imp_threw: "some_remote_call_threw env cs \<Longrightarrow> some_call_threw env cs"
  by (auto simp: some_remote_call_threw_def some_call_threw_def list_ex_iff)

lemma revalidation_calls_cache: "list_all is_cache_call (revalidation_calls ow rp n scopes)"
proof -
  have "is_cache_call (scope_call ow rp n sc)" for sc by (cases sc) simp_all
  then show ?thesis by (simp add: revalidation_calls_def list_all_iff)
qed

lemma claimed_revalidation_cache: "list_all is_cache_call (claimed_revalidation m)"
  by (cases "target m") (simp add: claimed_revalidation_def revalidation_calls_cache)

lemma claimed_revalidation_nonempty: "claimed_revalidation m \<noteq> []"
  by (cases "target m") (simp add: claimed_revalidation_def revalidation_calls_def)

lemma filter_quiet: "quiet cs \<Longrightarrow> filter is_cache_call cs = []"
  by (induction cs) (simp_all add: quiet_def)

lemma filter_quiet_not: "quiet cs \<Longrightarrow> filter (\<lambda>c. \<not> is_cache_call c) cs = cs"
  by (induction cs) (simp_all add: quiet_def)

lemma filter_all_cache: "list_all is_cache_call cs \<Longrightarrow> filter is_cache_call cs = cs"
  by (induction cs) simp_all

lemma filter_all_cache_not: "list_all is_cache_call cs \<Longrightarrow> filter (\<lambda>c. \<not> is_cache_call c) cs = []"
  by (induction cs) simp_all

lemma prefix_all_cache: "list_all is_cache_call (pre @ rest) \<Longrightarrow> list_all is_cache_call pre"
  by simp

lemma ends_as_facts:
  assumes e: "ends_as env expected [] (Inr r, trace)" and c: "list_all is_cache_call expected"
  shows "is_success r \<longrightarrow> (\<exists>cs. quiet cs \<and> trace = cs @ expected) \<and> \<not> some_call_threw env trace"
    and "some_remote_call_threw env trace \<longrightarrow> is_failure r \<and> filter is_cache_call trace = []"
    and "some_call_threw env trace \<longrightarrow> is_failure r"
    and "trace = filter (\<lambda>c. \<not> is_cache_call c) trace @ filter is_cache_call trace"
proof -
  from e obtain cs where cs: "quiet cs"
    "(is_success r \<and> trace = cs @ expected \<and> answered_ok env [] (cs @ expected))
     \<or> (\<not> is_success r \<and> trace = cs)
     \<or> (\<not> is_success r \<and> answered_ok env [] cs
          \<and> (\<exists>pre. pre \<noteq> [] \<and> (\<exists>rest. expected = pre @ rest) \<and> trace = cs @ pre
                 \<and> \<not> answered_ok env cs pre))"
    unfolding ends_as_def by auto
  show "is_success r \<longrightarrow> (\<exists>cs. quiet cs \<and> trace = cs @ expected) \<and> \<not> some_call_threw env trace"
    using cs by (auto simp: answered_ok_no_throw)
  show "some_call_threw env trace \<longrightarrow> is_failure r"
    using cs by (auto simp: answered_ok_no_throw is_success_def)
  show "trace = filter (\<lambda>c. \<not> is_cache_call c) trace @ filter is_cache_call trace"
    using cs c
    by (auto simp: filter_quiet filter_quiet_not filter_all_cache filter_all_cache_not)
  show "some_remote_call_threw env trace \<longrightarrow> is_failure r \<and> filter is_cache_call trace = []"
  proof
    assume t: "some_remote_call_threw env trace"
    then obtain i where i: "i < length trace" "\<not> is_cache_call (trace ! i)" "threw_at env trace i"
      by (auto simp: some_remote_call_threw_def list_ex_iff)
    from cs(2) show "is_failure r \<and> filter is_cache_call trace = []"
    proof (elim disjE conjE exE)
      assume "is_success r" "trace = cs @ expected" "answered_ok env [] (cs @ expected)"
      then have "\<not> some_call_threw env trace" by (simp add: answered_ok_no_throw)
      then show ?thesis using t by (simp add: remote_threw_imp_threw)
    next
      assume "\<not> is_success r" "trace = cs"
      then show ?thesis using cs(1) by (simp add: filter_quiet is_success_def)
    next
      fix pre rest
      assume a: "\<not> is_success r" "answered_ok env [] cs" "pre \<noteq> []" "expected = pre @ rest"
        "trace = cs @ pre" "\<not> answered_ok env cs pre"
      have pre: "list_all is_cache_call pre" using c a(4) by simp
      show ?thesis
      proof (cases "i < length cs")
        case True
        then have "threw_at env cs i" using i(3) a(5) by (simp add: threw_at_prefix)
        then have "some_call_threw env cs" using True by (auto simp: some_call_threw_def list_ex_iff)
        then show ?thesis using a(2) by (simp add: answered_ok_no_throw)
      next
        case False
        then have "trace ! i = pre ! (i - length cs)" using a(5) by (simp add: nth_append)
        moreover have "i - length cs < length pre" using False i(1) a(5) by simp
        ultimately have "is_cache_call (trace ! i)" using pre by (simp add: list_all_length)
        then show ?thesis using i(2) by simp
      qed
    qed
  qed
qed

lemma thread_errors_run:
  assumes "env [] (Fetch t q) = Returned (VResponse resp)"
    "json_body resp = Inr json" "errors json = Some (e # es)"
  shows "io_try
            (io_bind (perform env (Fetch t q)) (\<lambda>v.
             io_bind (io_lift (expect_response v)) (\<lambda>response.
             io_bind (io_lift (json_body response)) (\<lambda>json.
             (case errors json of
                Some (e # es) \<Rightarrow> io_return (Failure (message e))
              | _ \<Rightarrow> k))))) h []
         = (Inr (Failure (message e)), [Fetch t q])"
  using assms by (simp add: io_try_def io_bind_def perform_def io_lift_def io_return_def)

lemma resolve_errors_run:
  assumes "truthy (getGitHubToken amb) = Some t"
    "env [] (Fetch t (ResolveReviewThreadMutation th)) = Returned (VResponse resp)"
    "json_body resp = Inr json" "errors json = Some (e # es)"
  shows "run_mutation env amb (ResolveReviewThread th ow rp n) []
           = (Inr (Failure (message e)), [Fetch t (ResolveReviewThreadMutation th)])"
  using assms thread_errors_run[of env t "ResolveReviewThreadMutation th" resp json e es]
  by (simp add: resolveReviewThread_def)

lemma unresolve_errors_run:
  assumes "truthy (getGitHubToken amb) = Some t"
    "env [] (Fetch t (UnresolveReviewThreadMutation th)) = Returned (VResponse resp)"
    "json_body resp = Inr json" "errors json = Some (e # es)"
  shows "run_mutation env amb (UnresolveReviewThread th ow rp n) []
           = (Inr (Failure (message e)), [Fetch t (UnresolveReviewThreadMutation th)])"
  using assms thread_errors_run[of env t "UnresolveReviewThreadMutation th" resp json e es]
  by (simp add: unresolveReviewThread_def)

lemma run_mutation_facts:
  obtains r trace where "run_mutation env amb m [] = (Inr r, trace)"
    "ends_as env (claimed_revalidation m) [] (Inr r, trace)"
proof -
  obtain r where "fst (run_mutation env amb m []) = Inr r"
    using run_mutation_total[of env amb m "[]"] by blast
  then have "run_mutation env amb m [] = (Inr r, snd (run_mutation env amb m []))"
    by (cases "run_mutation env amb m []") simp
  moreover have "ends_as env (claimed_revalidation m) [] (run_mutation env amb m [])"
    by (rule run_mutation_ends)
  ultimately show ?thesis using that by metis
qed






lemma ends_as_cache_fact:
  assumes e: "ends_as env expected [] (Inr r, trace)" and c: "list_all is_cache_call expected"
  shows "is_failure r \<longrightarrow> filter is_cache_call trace = [] \<or> some_cache_call_threw env trace"
proof
  assume f: "is_failure r"
  from e obtain cs where cs: "quiet cs"
    "(is_success r \<and> trace = cs @ expected \<and> answered_ok env [] (cs @ expected))
     \<or> (\<not> is_success r \<and> trace = cs)
     \<or> (\<not> is_success r \<and> answered_ok env [] cs
          \<and> (\<exists>pre. pre \<noteq> [] \<and> (\<exists>rest. expected = pre @ rest) \<and> trace = cs @ pre
                 \<and> \<not> answered_ok env cs pre))"
    unfolding ends_as_def by auto
  from cs(2) show "filter is_cache_call trace = [] \<or> some_cache_call_threw env trace"
  proof (elim disjE conjE exE)
    assume "is_success r"
    then show ?thesis using f by (simp add: is_success_def)
  next
    assume "trace = cs"
    then show ?thesis using cs(1) by (simp add: filter_quiet)
  next
    fix pre rest
    assume a: "expected = pre @ rest" "trace = cs @ pre" "\<not> answered_ok env cs pre"
    have pre: "list_all is_cache_call pre" using c a(1) by simp
    from a(3) obtain i where i: "i < length pre" "threw_at env (cs @ pre) (length cs + i)"
      using answered_ok_iff[of env cs pre] by blast
    have k: "is_cache_call (trace ! (length cs + i))"
      using pre i(1) a(2) by (simp add: list_all_length)
    have l: "length cs + i < length trace" using i(1) a(2) by simp
    have t: "threw_at env trace (length cs + i)" using i(2) a(2) by simp
    have "\<exists>j\<in>set [0..<length trace]. is_cache_call (trace ! j) \<and> threw_at env trace j"
      using k l t by (intro bexI[of _ "length cs + i"]) simp_all
    then have "some_cache_call_threw env trace"
      unfolding some_cache_call_threw_def list_ex_iff .
    then show ?thesis by blast
  qed
qed

subsection \<open>Failures, revalidation and authentication\<close>





text \<open>
  C3. The cache is touched only after the remote calls have succeeded: a mutation that is
  not authenticated makes no call at all; when a remote call threw, the result is an
  \<open>{error}\<close> result and no cache invalidation or revalidation has run; when the GraphQL
  response of a thread mutation carries a non-empty \<open>errors\<close> array, the result is its first
  message and the request is the only call. An \<open>{error}\<close> result comes with no cache call
  at all, unless it was a cache call itself that threw; and in every run the cache calls
  come after all the remote calls.
\<close>

theorem failed_mutation_leaves_cache:
  "(\<not> authenticated amb m
      \<longrightarrow> run_mutation env amb m [] = (Inr (Failure ''Not authenticated''), []))
   \<and> (some_remote_call_threw env (snd (run_mutation env amb m []))
      \<longrightarrow> (\<exists>msg. fst (run_mutation env amb m []) = Inr (Failure msg))
        \<and> filter is_cache_call (snd (run_mutation env amb m [])) = [])
   \<and> (truthy (getGitHubToken amb) = Some t
        \<and> env [] (Fetch t (ResolveReviewThreadMutation th)) = Returned (VResponse resp)
        \<and> json_body resp = Inr json \<and> errors json = Some (e # es)
      \<longrightarrow> run_mutation env amb (ResolveReviewThread th ow rp n) []
           = (Inr (Failure (message e)), [Fetch t (ResolveReviewThreadMutation th)]))
   \<and> (truthy (getGitHubToken amb) = Some t
        \<and> env [] (Fetch t (UnresolveReviewThreadMutation th)) = Returned (VResponse resp)
        \<and> json_body resp = Inr json \<and> errors json = Some (e # es)
      \<longrightarrow> run_mutation env amb (UnresolveReviewThread th ow rp n) []
           = (Inr (Failure (message e)), [Fetch t (UnresolveReviewThreadMutation th)]))
   \<and> (filter is_cache_call (snd (run_mutation env amb m [])) \<noteq> []
      \<longrightarrow> \<not> some_remote_call_threw env (snd (run_mutation env amb m [])))
   \<and> (\<exists>r. fst (run_mutation env amb m []) = Inr r
        \<and> (is_failure r \<longrightarrow> filter is_cache_call (snd (run_mutation env amb m [])) = []
                             \<or> some_cache_call_threw env (snd (run_mutation env amb m []))))
   \<and> snd (run_mutation env amb m [])
       = filter (\<lambda>c. \<not> is_cache_call c) (snd (run_mutation env amb m []))
         @ filter is_cache_call (snd (run_mutation env amb m []))"
proof -
  obtain r trace where run: "run_mutation env amb m [] = (Inr r, trace)"
    and ends: "ends_as env (claimed_revalidation m) [] (Inr r, trace)"
    by (rule run_mutation_facts)
  have thrown: "some_remote_call_threw env trace \<longrightarrow> is_failure r \<and> filter is_cache_call trace = []"
    using ends_as_facts(2)[OF ends claimed_revalidation_cache] .
  have order: "trace = filter (\<lambda>c. \<not> is_cache_call c) trace @ filter is_cache_call trace"
    using ends_as_facts(4)[OF ends claimed_revalidation_cache] .
  have cache: "is_failure r \<longrightarrow> filter is_cache_call trace = [] \<or> some_cache_call_threw env trace"
    using ends_as_cache_fact[OF ends claimed_revalidation_cache] .
  have msg: "is_failure r \<Longrightarrow> \<exists>msg. r = Failure msg" by (cases r) simp_all
  have a: "some_remote_call_threw env (snd (run_mutation env amb m []))
      \<longrightarrow> (\<exists>msg. fst (run_mutation env amb m []) = Inr (Failure msg))
        \<and> filter is_cache_call (snd (run_mutation env amb m [])) = []"
    using thrown msg by (auto simp: run)
  have b: "filter is_cache_call (snd (run_mutation env amb m [])) \<noteq> []
      \<longrightarrow> \<not> some_remote_call_threw env (snd (run_mutation env amb m []))"
    using thrown by (auto simp: run)
  have c: "snd (run_mutation env amb m [])
       = filter (\<lambda>c. \<not> is_cache_call c) (snd (run_mutation env amb m []))
         @ filter is_cache_call (snd (run_mutation env amb m []))"
    using order by (simp add: run)
  have d: "\<exists>r. fst (run_mutation env amb m []) = Inr r
        \<and> (is_failure r \<longrightarrow> filter is_cache_call (snd (run_mutation env amb m [])) = []
                             \<or> some_cache_call_threw env (snd (run_mutation env amb m [])))"
    using cache by (simp add: run)
  show ?thesis
    using a b c d run_mutation_unauthenticated[where amb=amb and m=m and env=env and tr="[]"]
      resolve_errors_run[where env=env and amb=amb and t=t and th=th and resp=resp and json=json
        and e=e and es=es and ow=ow and rp=rp and n=n]
      unresolve_errors_run[where env=env and amb=amb and t=t and th=th and resp=resp and json=json
        and e=e and es=es and ow=ow and rp=rp and n=n]
    by blast
qed

theorem failed_mutation_leaves_cache_witness:
  "some_remote_call_threw env_remote_fails (snd (run_mutation env_remote_fails amb_signed_in ex_merge []))
   \<and> filter is_cache_call (snd (run_mutation env_remote_fails amb_signed_in ex_merge [])) = []
   \<and> \<not> authenticated amb_signed_out ex_merge
   \<and> run_mutation env_ok amb_signed_out ex_merge [] = (Inr (Failure ''Not authenticated''), [])
   \<and> run_mutation env_graphql_errors amb_signed_in (ResolveReviewThread ''T1'' ''o'' ''r'' 7) []
       = (Inr (Failure ''Could not resolve to a node''), [Fetch ''tok'' (ResolveReviewThreadMutation ''T1'')])
   \<and> run_mutation env_graphql_errors amb_signed_in (UnresolveReviewThread ''T1'' ''o'' ''r'' 7) []
       = (Inr (Failure ''Could not resolve to a node''), [Fetch ''tok'' (UnresolveReviewThreadMutation ''T1'')])
   \<and> filter is_cache_call (snd (run_mutation env_ok amb_signed_in ex_merge [])) \<noteq> []
   \<and> \<not> some_remote_call_threw env_ok (snd (run_mutation env_ok amb_signed_in ex_merge []))"
proof -
  let ?e = "\<lparr>message = ''Could not resolve to a node''\<rparr>"
  let ?json = "\<lparr>errors = Some [?e], data = None\<rparr>"
  let ?resp = "\<lparr>ok = True, json_body = Inr ?json\<rparr>"
  have threw: "some_remote_call_threw env_remote_fails (snd (run_mutation env_remote_fails amb_signed_in ex_merge []))"
    by code_simp
  have touched: "filter is_cache_call (snd (run_mutation env_ok amb_signed_in ex_merge [])) \<noteq> []"
    by code_simp
  have out: "\<not> authenticated amb_signed_out ex_merge"
    by (simp add: authenticated_def amb_signed_out_def ex_merge_def)
  have tok: "truthy (getGitHubToken amb_signed_in) = Some ''tok''"
    by (simp add: truthy_def amb_signed_in_def)
  have gql: "env_graphql_errors [] (Fetch ''tok'' (ResolveReviewThreadMutation ''T1'')) = Returned (VResponse ?resp)"
    "env_graphql_errors [] (Fetch ''tok'' (UnresolveReviewThreadMutation ''T1'')) = Returned (VResponse ?resp)"
    by (simp_all add: env_graphql_errors_def)
  have a: "filter is_cache_call (snd (run_mutation env_remote_fails amb_signed_in ex_merge [])) = []"
    using failed_mutation_leaves_cache[where env=env_remote_fails and amb=amb_signed_in and m=ex_merge
        and t="''tok''" and th="''T1''" and ow="''o''" and rp="''r''" and n=7
        and resp="?resp" and json="?json" and e="?e" and es="[]"] threw
    by simp
  have b: "run_mutation env_ok amb_signed_out ex_merge [] = (Inr (Failure ''Not authenticated''), [])"
    using failed_mutation_leaves_cache[where env=env_ok and amb=amb_signed_out and m=ex_merge
        and t="''tok''" and th="''T1''" and ow="''o''" and rp="''r''" and n=7
        and resp="?resp" and json="?json" and e="?e" and es="[]"] out
    by simp
  have c: "run_mutation env_graphql_errors amb_signed_in (ResolveReviewThread ''T1'' ''o'' ''r'' 7) []
       = (Inr (Failure ''Could not resolve to a node''), [Fetch ''tok'' (ResolveReviewThreadMutation ''T1'')])
     \<and> run_mutation env_graphql_errors amb_signed_in (UnresolveReviewThread ''T1'' ''o'' ''r'' 7) []
       = (Inr (Failure ''Could not resolve to a node''), [Fetch ''tok'' (UnresolveReviewThreadMutation ''T1'')])"
    using failed_mutation_leaves_cache[where env=env_graphql_errors and amb=amb_signed_in and m=ex_merge
        and t="''tok''" and th="''T1''" and ow="''o''" and rp="''r''" and n=7
        and resp="?resp" and json="?json" and e="?e" and es="[]"] tok gql
    by simp
  have d: "\<not> some_remote_call_threw env_ok (snd (run_mutation env_ok amb_signed_in ex_merge []))"
    using failed_mutation_leaves_cache[where env=env_ok and amb=amb_signed_in and m=ex_merge
        and t="''tok''" and th="''T1''" and ow="''o''" and rp="''r''" and n=7
        and resp="?resp" and json="?json" and e="?e" and es="[]"] touched
    by simp
  show ?thesis using threw touched out a b c d by blast
qed

text \<open>
  C8. When the authentication lookup that a mutation uses gives \<open>null\<close> (the client for
  eleven of them, the token for the two thread mutations), the mutation returns
  \<open>{error: "Not authenticated"}\<close>, and \<open>fetchAuthorDossier\<close> returns \<open>null\<close> without a token, in
  each case before any remote call, cache invalidation or revalidation: the trace of
  calls is unchanged.
\<close>

theorem unauthenticated_returns_early:
  "(\<not> uses_token m \<and> getOctokit amb = None
      \<longrightarrow> run_mutation env amb m tr = (Inr (Failure ''Not authenticated''), tr))
   \<and> (uses_token m \<and> getGitHubToken amb = None
      \<longrightarrow> run_mutation env amb m tr = (Inr (Failure ''Not authenticated''), tr))
   \<and> fetchAuthorDossier env sc None ow rp al tr = (Inr None, tr)"
proof -
  have "\<not> uses_token m \<and> getOctokit amb = None \<longrightarrow> \<not> authenticated amb m"
    by (simp add: authenticated_def)
  moreover have "uses_token m \<and> getGitHubToken amb = None \<longrightarrow> \<not> authenticated amb m"
    by (simp add: authenticated_def truthy_def)
  moreover have "fetchAuthorDossier env sc None ow rp al tr = (Inr None, tr)"
    by (simp add: fetchAuthorDossier_def truthy_def io_try_def io_return_def)
  ultimately show ?thesis
    using run_mutation_unauthenticated[where amb=amb and m=m and env=env and tr=tr] by blast
qed

theorem unauthenticated_returns_early_witness:
  "\<not> uses_token ex_merge \<and> getOctokit amb_signed_out = None
   \<and> uses_token ex_resolve \<and> getGitHubToken amb_signed_out = None
   \<and> run_mutation env_ok amb_signed_out ex_merge [] = (Inr (Failure ''Not authenticated''), [])
   \<and> run_mutation env_ok amb_signed_out ex_resolve [] = (Inr (Failure ''Not authenticated''), [])
   \<and> fetchAuthorDossier env_ok no_score None ''o'' ''r'' ''a'' [] = (Inr None, [])"
proof -
  have a: "\<not> uses_token ex_merge" "getOctokit amb_signed_out = None"
    "uses_token ex_resolve" "getGitHubToken amb_signed_out = None"
    by (simp_all add: amb_signed_out_def ex_merge_def ex_resolve_def)
  show ?thesis
    using unauthenticated_returns_early[where env=env_ok and amb=amb_signed_out and m=ex_merge
        and tr="[]" and sc=no_score and ow="''o''" and rp="''r''" and al="''a''"]
      unauthenticated_returns_early[where env=env_ok and amb=amb_signed_out and m=ex_resolve
        and tr="[]" and sc=no_score and ow="''o''" and rp="''r''" and al="''a''"] a
    by simp
qed

subsection \<open>The score\<close>

text \<open>
  C5. For every snapshot, however large its followers, public repositories or star
  counts, the score lies between 0 and the documented maximum, because the sum is clamped
  (for the scorer as the specification describes it, with a maximum that is not negative).
\<close>

theorem score_within_range:
  assumes "0 \<le> MAX_score design"
  shows "0 \<le> computeContributorScore design now s
       \<and> computeContributorScore design now s \<le> MAX_score design"
  using assms by (simp add: computeContributorScore_def)

theorem score_within_range_witness:
  "0 \<le> MAX_score ex_design
   \<and> 0 \<le> computeContributorScore ex_design 0 ex_famous
   \<and> computeContributorScore ex_design 0 ex_famous \<le> 100
   \<and> raw_score ex_design 0 ex_famous = 3000000005"
  using score_within_range[of ex_design 0 ex_famous]
  by (simp add: ex_design_def raw_score_def ex_famous_def account_age_def peak_stars_def merged_count_def)




end
